theory Spec2Isabelle
  imports Complex_Main
begin

section \<open>JavaScript numbers\<close>

text \<open>
  The renderer (\<^verbatim>\<open>src/renderer/App.jsx\<close>) computes with JavaScript numbers, which are
  IEEE 754 binary64 values. A number is modelled as a finite real or one of the three
  special values. The result of \<open>+\<close>, \<open>*\<close> and \<open>/\<close> on finite operands, and the value of
  a decimal literal, is the exact real result rounded to binary64 by \<open>fl\<close>: to the
  nearest value with a 53-bit significand, a tie going to the even significand, with
  gradual underflow below \<open>2^-1022\<close> and overflow to an infinity from \<open>2^1024\<close> on.
  The special values follow ECMAScript: \<^verbatim>\<open>NaN\<close> is contagious, \<^verbatim>\<open>Infinity * 0\<close> and
  \<^verbatim>\<open>Infinity - Infinity\<close> are \<^verbatim>\<open>NaN\<close>. The sign of zero is not modelled.
\<close>

datatype jsnum = Fin real | PosInf | NegInf | NaN

text \<open>
  The binary exponent of a positive real: \<open>e\<close> with \<open>2^e \<le> a < 2^(e+1)\<close>, and \<open>-1022\<close>
  for every \<open>a\<close> below \<open>2^-1022\<close> (the subnormal range).
\<close>

function ex_up :: "real \<Rightarrow> int \<Rightarrow> int" where
  "ex_up a e = (if 2 \<le> a then ex_up (a / 2) (e + 1) else e)"
  by pat_completeness auto
termination
proof (relation "measure (\<lambda>(a, e). nat \<lceil>a\<rceil>)")
  show "wf (measure (\<lambda>(a, e). nat \<lceil>a\<rceil>))" by simp
next
  fix a :: real and e :: int
  assume "2 \<le> a"
  then have "\<lceil>a / 2\<rceil> < \<lceil>a\<rceil>" "0 < \<lceil>a\<rceil>" by linarith+
  then show "((a / 2, e + 1), (a, e)) \<in> measure (\<lambda>(a, e). nat \<lceil>a\<rceil>)" by simp
qed

function ex_down :: "real \<Rightarrow> int \<Rightarrow> int" where
  "ex_down a e = (if a < 1 \<and> - 1022 < e then ex_down (a * 2) (e - 1) else e)"
  by pat_completeness auto
termination
  by (relation "measure (\<lambda>(a, e). nat (e + 1022))") auto

definition exponent :: "real \<Rightarrow> int" where
  "exponent a = (if 1 \<le> a then ex_up a 0 else ex_down a 0)"

text \<open>Rounding to the nearest integer, a tie going to the even one.\<close>

definition rne :: "real \<Rightarrow> int" where
  "rne n = (let f = \<lfloor>n\<rfloor>; r = n - of_int f
            in if r < 1 / 2 then f else if 1 / 2 < r then f + 1
               else if even f then f else f + 1)"

text \<open>
  A positive real rounded to a multiple of the unit in the last place of its binade,
  \<open>2^(e - 52)\<close>; \<open>fl_pos\<close> adds the overflow, \<open>fl\<close> the sign and zero.
\<close>

definition rnd :: "real \<Rightarrow> real" where
  "rnd a = of_int (rne (a / 2 powi (exponent a - 52))) * 2 powi (exponent a - 52)"

definition fl_pos :: "real \<Rightarrow> jsnum" where
  "fl_pos a = (let v = rnd a in if 2 ^ 1024 \<le> v then PosInf else Fin v)"

definition fl :: "real \<Rightarrow> jsnum" where
  "fl x = (if x = 0 then Fin 0 else if 0 < x then fl_pos x
           else (case fl_pos (- x) of Fin v \<Rightarrow> Fin (- v) | _ \<Rightarrow> NegInf))"

text \<open>The value of a decimal literal of the source, such as \<^verbatim>\<open>0.1\<close>.\<close>

definition num :: "real \<Rightarrow> jsnum" where
  "num r = fl r"


definition inf_of_sign :: "real \<Rightarrow> jsnum" where
  "inf_of_sign s = (if s = 0 then NaN else if 0 < s then PosInf else NegInf)"

text \<open>\<^verbatim>\<open>Number.isFinite(v)\<close>\<close>

fun isFinite :: "jsnum \<Rightarrow> bool" where
  "isFinite (Fin _) = True"
| "isFinite _ = False"

text \<open>\<^verbatim>\<open>Math.abs(v)\<close>\<close>

fun js_abs :: "jsnum \<Rightarrow> jsnum" where
  "js_abs (Fin a) = Fin \<bar>a\<bar>"
| "js_abs PosInf = PosInf"
| "js_abs NegInf = PosInf"
| "js_abs NaN = NaN"

text \<open>\<^verbatim>\<open>a * b\<close>\<close>

fun js_mul :: "jsnum \<Rightarrow> jsnum \<Rightarrow> jsnum" where
  "js_mul NaN _ = NaN"
| "js_mul _ NaN = NaN"
| "js_mul (Fin a) (Fin b) = fl (a * b)"
| "js_mul (Fin a) PosInf = inf_of_sign a"
| "js_mul (Fin a) NegInf = inf_of_sign (- a)"
| "js_mul PosInf (Fin b) = inf_of_sign b"
| "js_mul NegInf (Fin b) = inf_of_sign (- b)"
| "js_mul PosInf PosInf = PosInf"
| "js_mul PosInf NegInf = NegInf"
| "js_mul NegInf PosInf = NegInf"
| "js_mul NegInf NegInf = PosInf"

text \<open>\<^verbatim>\<open>a + b\<close>\<close>

fun js_add :: "jsnum \<Rightarrow> jsnum \<Rightarrow> jsnum" where
  "js_add NaN _ = NaN"
| "js_add _ NaN = NaN"
| "js_add (Fin a) (Fin b) = fl (a + b)"
| "js_add PosInf NegInf = NaN"
| "js_add NegInf PosInf = NaN"
| "js_add PosInf _ = PosInf"
| "js_add _ PosInf = PosInf"
| "js_add NegInf _ = NegInf"
| "js_add _ NegInf = NegInf"

text \<open>
  \<^verbatim>\<open>a / b\<close>. The program divides by the literals 2, 3 and 100 only; a zero divisor is
  treated as \<^verbatim>\<open>+0\<close>.
\<close>

fun js_div :: "jsnum \<Rightarrow> jsnum \<Rightarrow> jsnum" where
  "js_div NaN _ = NaN"
| "js_div _ NaN = NaN"
| "js_div (Fin a) (Fin b) = (if b = 0 then inf_of_sign a else fl (a / b))"
| "js_div (Fin a) PosInf = Fin 0"
| "js_div (Fin a) NegInf = Fin 0"
| "js_div PosInf (Fin b) = (if b < 0 then NegInf else PosInf)"
| "js_div NegInf (Fin b) = (if b < 0 then PosInf else NegInf)"
| "js_div PosInf PosInf = NaN"
| "js_div PosInf NegInf = NaN"
| "js_div NegInf PosInf = NaN"
| "js_div NegInf NegInf = NaN"

text \<open>\<^verbatim>\<open>Math.max(a, b)\<close>: \<^verbatim>\<open>NaN\<close> when either argument is \<^verbatim>\<open>NaN\<close>.\<close>

fun js_max :: "jsnum \<Rightarrow> jsnum \<Rightarrow> jsnum" where
  "js_max NaN _ = NaN"
| "js_max _ NaN = NaN"
| "js_max PosInf _ = PosInf"
| "js_max _ PosInf = PosInf"
| "js_max NegInf b = b"
| "js_max a NegInf = a"
| "js_max (Fin a) (Fin b) = Fin (max a b)"

text \<open>
  \<^verbatim>\<open>Math.round(v)\<close>: the integer nearest to \<open>v\<close>, a tie going up. On a binary64 value
  this integer is a binary64 value again, so no rounding applies.
\<close>

fun js_round :: "jsnum \<Rightarrow> jsnum" where
  "js_round (Fin a) = Fin (of_int \<lfloor>a + 1 / 2\<rfloor>)"
| "js_round v = v"

text \<open>
  \<^verbatim>\<open>
  const parseNumber = (value, fallback = 0) => {
    const parsed = Number.parseFloat(value);
    return Number.isFinite(parsed) ? parsed : fallback;
  };
  \<close>
  \<^verbatim>\<open>Number.parseFloat\<close> belongs to the language: the model takes its result \<open>parsed\<close>
  in place of the text. On an argument that is already a number it returns that number.
  A \<open>fallback\<close> that is \<^verbatim>\<open>undefined\<close> (\<open>None\<close>) takes the default \<open>0\<close>.
\<close>

definition parseNumber :: "jsnum \<Rightarrow> jsnum option \<Rightarrow> jsnum" where
  "parseNumber parsed fallback =
     (let fb = (case fallback of None \<Rightarrow> Fin 0 | Some f \<Rightarrow> f)
      in if isFinite parsed then parsed else fb)"

text \<open>
  \<^verbatim>\<open>
  const roundValue = (value, precision = 2) => {
    const multiplier = 10 ** precision;
    return Math.round(value * multiplier) / multiplier;
  };
  \<close>
  Every call in the program leaves \<open>precision\<close> at its default, for which the multiplier
  \<open>100\<close> is exact.
\<close>

definition roundValue_prec :: "jsnum \<Rightarrow> nat \<Rightarrow> jsnum" where
  "roundValue_prec v precision =
     (let multiplier = Fin (10 ^ precision)
      in js_div (js_round (js_mul v multiplier)) multiplier)"

definition roundValue :: "jsnum \<Rightarrow> jsnum" where
  "roundValue v = roundValue_prec v 2"

section \<open>Coordinate remap\<close>

datatype vec3 = Vec3 (vx: jsnum) (vy: jsnum) (vz: jsnum)

text \<open>
  \<^verbatim>\<open>const positionToWorld = ({ x, y, z }) => ({ x, y: z, z: y });\<close>
  \<^verbatim>\<open>const positionFromWorld = ({ x, y, z }) => ({ x, y: z, z: y });\<close>
\<close>

definition positionToWorld :: "vec3 \<Rightarrow> vec3" where
  "positionToWorld p = Vec3 (vx p) (vz p) (vy p)"

definition positionFromWorld :: "vec3 \<Rightarrow> vec3" where
  "positionFromWorld p = Vec3 (vx p) (vz p) (vy p)"

section \<open>Primitives and the store\<close>

datatype shape = Box | Sphere | Cylinder

datatype operation = Add | Subtract

text \<open>
  A \<^verbatim>\<open>dimensions\<close> object holds some of the keys \<^verbatim>\<open>width\<close>, \<^verbatim>\<open>height\<close>, \<^verbatim>\<open>depth\<close>,
  \<^verbatim>\<open>radius\<close>; a key that is absent reads as \<^verbatim>\<open>undefined\<close> (here \<open>None\<close>).
\<close>

record dims =
  width :: "jsnum option"
  height :: "jsnum option"
  depth :: "jsnum option"
  radius :: "jsnum option"

definition no_dims :: dims where
  "no_dims = \<lparr>width = None, height = None, depth = None, radius = None\<rparr>"

text \<open>Object spread \<^verbatim>\<open>{ ...a, ...b }\<close> on two \<^verbatim>\<open>dimensions\<close> objects: the keys of \<open>b\<close> win.\<close>

definition orElse :: "'a option \<Rightarrow> 'a option \<Rightarrow> 'a option" where
  "orElse b a = (case b of None \<Rightarrow> a | Some v \<Rightarrow> Some v)"

definition spread_dims :: "dims \<Rightarrow> dims \<Rightarrow> dims" where
  "spread_dims a b =
     \<lparr>width = orElse (width b) (width a), height = orElse (height b) (height a),
      depth = orElse (depth b) (depth a), radius = orElse (radius b) (radius a)\<rparr>"

text \<open>An arithmetic operand that is \<^verbatim>\<open>undefined\<close> converts to \<^verbatim>\<open>NaN\<close>.\<close>

definition toNumber :: "jsnum option \<Rightarrow> jsnum" where
  "toNumber v = (case v of None \<Rightarrow> NaN | Some n \<Rightarrow> n)"

text \<open>The condition of \<^verbatim>\<open>v ? a : b\<close> on a number or \<^verbatim>\<open>undefined\<close>.\<close>

definition truthy :: "jsnum option \<Rightarrow> bool" where
  "truthy v = (case v of None \<Rightarrow> False | Some NaN \<Rightarrow> False | Some (Fin a) \<Rightarrow> a \<noteq> 0 | Some _ \<Rightarrow> True)"

record primitive =
  pid :: string
  pname :: string
  ptype :: shape
  operation :: operation
  position :: vec3
  dimensions :: dims

datatype handle_mode = Move | Resize

text \<open>The state of \<^verbatim>\<open>App\<close> that the store contracts read and write.\<close>

record app =
  primitives :: "primitive list"
  selectedId :: "string option"
  handleMode :: handle_mode

text \<open>
  The literals \<open>0.5\<close>, \<open>1.5\<close> and \<open>2.5\<close> and the integers are binary64 values; the
  other decimal literals are rounded (\<open>num\<close>).
\<close>

definition DEFAULT_PRIMITIVES :: "primitive list" where
  "DEFAULT_PRIMITIVES =
     [\<lparr>pid = ''prim-1'', pname = ''Base Plate'', ptype = Box, operation = Add,
       position = Vec3 (Fin 0) (Fin 0) (Fin 0.5),
       dimensions = no_dims\<lparr>width := Some (Fin 6), height := Some (Fin 1), depth := Some (Fin 6)\<rparr>\<rparr>,
      \<lparr>pid = ''prim-2'', pname = ''Center Column'', ptype = Cylinder, operation = Add,
       position = Vec3 (Fin 0) (Fin 0) (Fin 2.5),
       dimensions = no_dims\<lparr>radius := Some (num 1.2), height := Some (Fin 4)\<rparr>\<rparr>,
      \<lparr>pid = ''prim-3'', pname = ''Corner Scoop'', ptype = Sphere, operation = Subtract,
       position = Vec3 (Fin 2.5) (Fin 2.5) (Fin 1.5),
       dimensions = no_dims\<lparr>radius := Some (num 1.4)\<rparr>\<rparr>]"

text \<open>\<^verbatim>\<open>TYPE_PRESETS[type].dimensions\<close> and \<^verbatim>\<open>TYPE_PRESETS[type].label\<close>\<close>

fun preset_dimensions :: "shape \<Rightarrow> dims" where
  "preset_dimensions Box = no_dims\<lparr>width := Some (Fin 2), height := Some (Fin 2), depth := Some (Fin 2)\<rparr>"
| "preset_dimensions Sphere = no_dims\<lparr>radius := Some (Fin 1.5)\<rparr>"
| "preset_dimensions Cylinder = no_dims\<lparr>radius := Some (num 1.1), height := Some (Fin 3)\<rparr>"

fun preset_label :: "shape \<Rightarrow> string" where
  "preset_label Box = ''Box''"
| "preset_label Sphere = ''Sphere''"
| "preset_label Cylinder = ''Cylinder''"

definition initial_app :: app where
  "initial_app =
     \<lparr>primitives = DEFAULT_PRIMITIVES,
      selectedId = (case DEFAULT_PRIMITIVES of [] \<Rightarrow> None | p # _ \<Rightarrow> Some (pid p)),
      handleMode = Move\<rparr>"

text \<open>
  The second argument of \<^verbatim>\<open>patchPrimitive\<close> is a function of the current primitive or an
  object whose keys overwrite the primitive's.
\<close>

record partial_primitive =
  new_id :: "string option"
  new_name :: "string option"
  new_type :: "shape option"
  new_operation :: "operation option"
  new_position :: "vec3 option"
  new_dimensions :: "dims option"

datatype updater = UpdaterFn "primitive \<Rightarrow> primitive" | UpdaterObj partial_primitive

definition spread_primitive :: "primitive \<Rightarrow> partial_primitive \<Rightarrow> primitive" where
  "spread_primitive item u =
     \<lparr>pid = (case new_id u of None \<Rightarrow> pid item | Some v \<Rightarrow> v),
      pname = (case new_name u of None \<Rightarrow> pname item | Some v \<Rightarrow> v),
      ptype = (case new_type u of None \<Rightarrow> ptype item | Some v \<Rightarrow> v),
      operation = (case new_operation u of None \<Rightarrow> operation item | Some v \<Rightarrow> v),
      position = (case new_position u of None \<Rightarrow> position item | Some v \<Rightarrow> v),
      dimensions = (case new_dimensions u of None \<Rightarrow> dimensions item | Some v \<Rightarrow> v)\<rparr>"

text \<open>
  \<^verbatim>\<open>
  const patchPrimitive = useCallback((id, updater) => {
    setPrimitives((items) =>
      items.map((item) => {
        if (item.id !== id) return item;
        return typeof updater === 'function' ? updater(item) : { ...item, ...updater };
      })
    );
  }, []);
  \<close>
\<close>

definition patch_item :: "string \<Rightarrow> updater \<Rightarrow> primitive \<Rightarrow> primitive" where
  "patch_item i u item =
     (if pid item \<noteq> i then item
      else case u of UpdaterFn f \<Rightarrow> f item | UpdaterObj obj \<Rightarrow> spread_primitive item obj)"

definition patchPrimitive :: "string \<Rightarrow> updater \<Rightarrow> app \<Rightarrow> app" where
  "patchPrimitive i u s = s\<lparr>primitives := map (patch_item i u) (primitives s)\<rparr>"

text \<open>
  \<^verbatim>\<open>
  const addPrimitive = useCallback((type) => {
    const preset = TYPE_PRESETS[type];
    const newPrimitive = {
      id: randomId(),
      name: `${preset.label} ${Math.floor(Math.random() * 90 + 10)}`,
      type,
      operation: type === 'sphere' ? 'subtract' : 'add',
      position: { x: 0, y: 0,
        z: preset.dimensions.height ? preset.dimensions.height / 2 : preset.dimensions.radius },
      dimensions: { ...preset.dimensions },
    };
    setPrimitives((items) => [...items, newPrimitive]);
    setSelectedId(newPrimitive.id);
  }, []);
  \<close>
  The two random draws are arguments of the model: \<open>rid\<close> is the result of
  \<^verbatim>\<open>randomId()\<close>, \<open>suffix\<close> the text of the random two-digit number.
\<close>

definition newPrimitive :: "shape \<Rightarrow> string \<Rightarrow> string \<Rightarrow> primitive" where
  "newPrimitive t rid suffix =
     (let preset = preset_dimensions t in
      \<lparr>pid = rid,
       pname = preset_label t @ '' '' @ suffix,
       ptype = t,
       operation = (if t = Sphere then Subtract else Add),
       position = Vec3 (Fin 0) (Fin 0)
         (if truthy (height preset) then js_div (toNumber (height preset)) (Fin 2)
          else toNumber (radius preset)),
       dimensions = preset\<rparr>)"

definition addPrimitive :: "shape \<Rightarrow> string \<Rightarrow> string \<Rightarrow> app \<Rightarrow> app" where
  "addPrimitive t rid suffix s =
     (let p = newPrimitive t rid suffix
      in s\<lparr>primitives := primitives s @ [p], selectedId := Some (pid p)\<rparr>)"

text \<open>
  \<^verbatim>\<open>
  const handleTransformPrimitive = useCallback((id, payload) => {
    patchPrimitive(id, (current) => ({
      ...current,
      ...(payload.position ? { position: { ...payload.position } } : {}),
      ...(payload.dimensions ? { dimensions: { ...payload.dimensions } } : {}),
    }));
  }, [patchPrimitive]);
  \<close>
\<close>

record payload =
  payload_position :: "vec3 option"
  payload_dimensions :: "dims option"

definition apply_payload :: "payload \<Rightarrow> primitive \<Rightarrow> primitive" where
  "apply_payload pl current =
     (let c1 = (case payload_position pl of None \<Rightarrow> current | Some v \<Rightarrow> current\<lparr>position := v\<rparr>)
      in case payload_dimensions pl of None \<Rightarrow> c1 | Some d \<Rightarrow> c1\<lparr>dimensions := d\<rparr>)"

definition handleTransformPrimitive :: "string \<Rightarrow> payload \<Rightarrow> app \<Rightarrow> app" where
  "handleTransformPrimitive i pl s = patchPrimitive i (UpdaterFn (apply_payload pl)) s"

text \<open>
  \<^verbatim>\<open>
  const removePrimitive = useCallback((id) => {
    setPrimitives((items) => {
      const filtered = items.filter((item) => item.id !== id);
      setSelectedId((current) => {
        if (!filtered.length) return null;
        if (current === id || !filtered.some((item) => item.id === current)) {
          return filtered[filtered.length - 1].id;
        }
        return current;
      });
      return filtered;
    });
  }, []);
  \<close>
\<close>

definition removePrimitive :: "string \<Rightarrow> app \<Rightarrow> app" where
  "removePrimitive i s =
     (let filtered = filter (\<lambda>item. pid item \<noteq> i) (primitives s);
          current = selectedId s
      in s\<lparr>primitives := filtered,
           selectedId :=
             (if length filtered = 0 then None
              else if current = Some i \<or> \<not> list_ex (\<lambda>item. Some (pid item) = current) filtered
                then Some (pid (filtered ! (length filtered - 1)))
              else current)\<rparr>)"

text \<open>
  The one read in the three mutators that can fail is \<^verbatim>\<open>filtered[filtered.length - 1].id\<close>:
  an index outside the array reads \<^verbatim>\<open>undefined\<close>, and \<^verbatim>\<open>undefined.id\<close> throws a
  \<^verbatim>\<open>TypeError\<close>. \<open>removePrimitive_checked\<close> is \<open>removePrimitive\<close> with that failure as
  \<open>None\<close>.
\<close>

definition nth_opt :: "'a list \<Rightarrow> int \<Rightarrow> 'a option" where
  "nth_opt xs i = (if 0 \<le> i \<and> i < int (length xs) then Some (xs ! nat i) else None)"

definition removePrimitive_checked :: "string \<Rightarrow> app \<Rightarrow> app option" where
  "removePrimitive_checked i s =
     (let filtered = filter (\<lambda>item. pid item \<noteq> i) (primitives s);
          current = selectedId s
      in if length filtered = 0 then Some (s\<lparr>primitives := filtered, selectedId := None\<rparr>)
         else if current = Some i \<or> \<not> list_ex (\<lambda>item. Some (pid item) = current) filtered
           then (case nth_opt filtered (int (length filtered) - 1) of
                   None \<Rightarrow> None
                 | Some item \<Rightarrow> Some (s\<lparr>primitives := filtered, selectedId := Some (pid item)\<rparr>))
         else Some (s\<lparr>primitives := filtered, selectedId := current\<rparr>))"

text \<open>\<^verbatim>\<open>items.findIndex(pred)\<close>: the first index at which \<open>pred\<close> holds, or \<open>-1\<close>.\<close>

fun findIndex :: "('a \<Rightarrow> bool) \<Rightarrow> 'a list \<Rightarrow> int" where
  "findIndex P [] = - 1"
| "findIndex P (x # xs) =
     (if P x then 0 else (let r = findIndex P xs in if r = - 1 then - 1 else r + 1))"

text \<open>
  \<^verbatim>\<open>xs.splice(i, 1)\<close> removes the element at \<open>i\<close>; \<^verbatim>\<open>xs.splice(t, 0, v)\<close> inserts \<open>v\<close>
  before index \<open>t\<close>. Both are called with an index inside the array.
\<close>

definition splice_out :: "'a list \<Rightarrow> nat \<Rightarrow> 'a list" where
  "splice_out xs i = take i xs @ drop (Suc i) xs"

definition splice_in :: "'a list \<Rightarrow> nat \<Rightarrow> 'a \<Rightarrow> 'a list" where
  "splice_in xs t v = take t xs @ [v] @ drop t xs"

text \<open>
  \<^verbatim>\<open>
  const reorderPrimitive = useCallback((id, direction) => {
    setPrimitives((items) => {
      const index = items.findIndex((primitive) => primitive.id === id);
      if (index === -1) return items;
      const targetIndex = index + direction;
      if (targetIndex < 0 || targetIndex >= items.length) return items;
      const nextItems = [...items];
      const [moved] = nextItems.splice(index, 1);
      nextItems.splice(targetIndex, 0, moved);
      return nextItems;
    });
  }, []);
  \<close>
\<close>

definition reorder_items :: "string \<Rightarrow> int \<Rightarrow> primitive list \<Rightarrow> primitive list" where
  "reorder_items i direction items =
     (let index = findIndex (\<lambda>primitive. pid primitive = i) items in
      if index = - 1 then items
      else let targetIndex = index + direction in
        if targetIndex < 0 \<or> targetIndex \<ge> int (length items) then items
        else let moved = items ! nat index;
                 nextItems = splice_out items (nat index)
             in splice_in nextItems (nat targetIndex) moved)"

definition reorderPrimitive :: "string \<Rightarrow> int \<Rightarrow> app \<Rightarrow> app" where
  "reorderPrimitive i direction s = s\<lparr>primitives := reorder_items i direction (primitives s)\<rparr>"

section \<open>Solid builder\<close>

datatype geometry =
  BoxGeometry "jsnum option" "jsnum option" "jsnum option"
| SphereGeometry "jsnum option" nat nat
| CylinderGeometry "jsnum option" "jsnum option" "jsnum option" nat

record mesh =
  mesh_geometry :: geometry
  mesh_position :: vec3

text \<open>
  \<^verbatim>\<open>
  function primitiveToMesh(primitive) {
    const { type, position, dimensions } = primitive;
    let geometry;
    if (type === 'box') {
      geometry = new THREE.BoxGeometry(dimensions.width, dimensions.height, dimensions.depth);
    } else if (type === 'sphere') {
      geometry = new THREE.SphereGeometry(dimensions.radius, 48, 32);
    } else {
      geometry = new THREE.CylinderGeometry(dimensions.radius, dimensions.radius, dimensions.height, 48);
    }
    const mesh = new THREE.Mesh(geometry);
    const worldPosition = positionToWorld(position);
    mesh.position.set(worldPosition.x, worldPosition.y, worldPosition.z);
    mesh.updateMatrix();
    return mesh;
  }
  \<close>
\<close>

definition primitiveToMesh :: "primitive \<Rightarrow> mesh" where
  "primitiveToMesh primitive =
     (let d = dimensions primitive;
          g = (if ptype primitive = Box then BoxGeometry (width d) (height d) (depth d)
               else if ptype primitive = Sphere then SphereGeometry (radius d) 48 32
               else CylinderGeometry (radius d) (radius d) (height d) 48);
          worldPosition = positionToWorld (position primitive)
      in \<lparr>mesh_geometry = g,
          mesh_position = Vec3 (vx worldPosition) (vy worldPosition) (vz worldPosition)\<rparr>)"

text \<open>
  The boolean-geometry library (\<^verbatim>\<open>three-csg-ts\<close>) is outside the repository: its four
  operations are parameters of the model. \<open>csg_toMesh\<close> stands for
  \<^verbatim>\<open>CSG.toMesh(merged, new THREE.Matrix4(), material)\<close> with the fixed material.
\<close>

record ('c, 'r) csg_lib =
  csg_fromMesh :: "mesh \<Rightarrow> 'c"
  csg_union :: "'c \<Rightarrow> 'c \<Rightarrow> 'c"
  csg_subtract :: "'c \<Rightarrow> 'c \<Rightarrow> 'c"
  csg_toMesh :: "'c \<Rightarrow> 'r"

record 'r solid =
  solid_mesh :: 'r
  castShadow :: bool
  receiveShadow :: bool

text \<open>
  \<^verbatim>\<open>
  function buildCombinedMesh(primitives) {
    if (!primitives.length) return null;
    let merged = CSG.fromMesh(primitiveToMesh(primitives[0]));
    for (let i = 1; i < primitives.length; i += 1) {
      const primitive = primitives[i];
      const mesh = primitiveToMesh(primitive);
      const next = CSG.fromMesh(mesh);
      merged = primitive.operation === 'subtract' ? merged.subtract(next) : merged.union(next);
    }
    const material = new THREE.MeshStandardMaterial({ ... });
    const mesh = CSG.toMesh(merged, new THREE.Matrix4(), material);
    mesh.castShadow = true;
    mesh.receiveShadow = true;
    return mesh;
  }
  \<close>
  The \<^verbatim>\<open>for\<close> loop is \<open>merge_from\<close>, recursive on the index \<open>i\<close>.
\<close>

function merge_from :: "('c, 'r) csg_lib \<Rightarrow> primitive list \<Rightarrow> nat \<Rightarrow> 'c \<Rightarrow> 'c" where
  "merge_from lib ps i merged =
     (if i < length ps then
        (let primitive = ps ! i;
             m = primitiveToMesh primitive;
             nxt = csg_fromMesh lib m
         in merge_from lib ps (i + 1)
              (if operation primitive = Subtract then csg_subtract lib merged nxt
               else csg_union lib merged nxt))
      else merged)"
  by pat_completeness auto
termination
  by (relation "measure (\<lambda>(lib, ps, i, merged). length ps - i)") auto

declare merge_from.simps [simp del]

definition buildCombinedMesh :: "('c, 'r) csg_lib \<Rightarrow> primitive list \<Rightarrow> 'r solid option" where
  "buildCombinedMesh lib ps =
     (if length ps = 0 then None
      else let merged = merge_from lib ps 1 (csg_fromMesh lib (primitiveToMesh (ps ! 0)))
           in Some \<lparr>solid_mesh = csg_toMesh lib merged, castShadow = True, receiveShadow = True\<rparr>)"

text \<open>
  The builder in the words of the specification: primitive 0 is the accumulator, and
  each later primitive, in list order, is united with it or subtracted from it.
\<close>

definition combine :: "('c, 'r) csg_lib \<Rightarrow> 'c \<Rightarrow> primitive \<Rightarrow> 'c" where
  "combine lib acc p =
     (case operation p of
        Add \<Rightarrow> csg_union lib acc (csg_fromMesh lib (primitiveToMesh p))
      | Subtract \<Rightarrow> csg_subtract lib acc (csg_fromMesh lib (primitiveToMesh p)))"

fun spec_build :: "('c, 'r) csg_lib \<Rightarrow> primitive list \<Rightarrow> 'r solid option" where
  "spec_build lib [] = None"
| "spec_build lib (p # rest) =
     Some \<lparr>solid_mesh = csg_toMesh lib (foldl (combine lib) (csg_fromMesh lib (primitiveToMesh p)) rest),
           castShadow = True, receiveShadow = True\<rparr>"

section \<open>Dimension-from-scale resolver\<close>

text \<open>
  \<^verbatim>\<open>
  const clampDimension = (value, fallback = 0.1) =>
    Math.max(fallback, Number.isFinite(value) ? value : fallback);
  \<close>
  Every call leaves \<open>fallback\<close> at its default.
\<close>

definition clampDimension_fb :: "jsnum \<Rightarrow> jsnum \<Rightarrow> jsnum" where
  "clampDimension_fb v fallback = js_max fallback (if isFinite v then v else fallback)"

definition clampDimension :: "jsnum \<Rightarrow> jsnum" where
  "clampDimension v = clampDimension_fb v (num 0.1)"

text \<open>
  \<^verbatim>\<open>
  function computeScaledDimensions(type, baseDimensions, scale) {
    if (!scale) return null;
    if (type === 'box') {
      return {
        width: roundValue(clampDimension(baseDimensions.width * Math.abs(scale.x))),
        height: roundValue(clampDimension(baseDimensions.height * Math.abs(scale.y))),
        depth: roundValue(clampDimension(baseDimensions.depth * Math.abs(scale.z))),
      };
    }
    if (type === 'sphere') {
      const uniformScale = (Math.abs(scale.x) + Math.abs(scale.y) + Math.abs(scale.z)) / 3;
      return { radius: roundValue(clampDimension(baseDimensions.radius * uniformScale)) };
    }
    const radialScale = (Math.abs(scale.x) + Math.abs(scale.z)) / 2;
    return {
      radius: roundValue(clampDimension(baseDimensions.radius * radialScale)),
      height: roundValue(clampDimension(baseDimensions.height * Math.abs(scale.y))),
    };
  }
  \<close>
\<close>

definition computeScaledDimensions :: "shape \<Rightarrow> dims \<Rightarrow> vec3 option \<Rightarrow> dims option" where
  "computeScaledDimensions t baseDimensions scale =
     (case scale of None \<Rightarrow> None
      | Some sc \<Rightarrow>
         if t = Box then
           Some (no_dims
             \<lparr>width := Some (roundValue (clampDimension (js_mul (toNumber (width baseDimensions)) (js_abs (vx sc))))),
              height := Some (roundValue (clampDimension (js_mul (toNumber (height baseDimensions)) (js_abs (vy sc))))),
              depth := Some (roundValue (clampDimension (js_mul (toNumber (depth baseDimensions)) (js_abs (vz sc)))))\<rparr>)
         else if t = Sphere then
           (let uniformScale = js_div (js_add (js_add (js_abs (vx sc)) (js_abs (vy sc))) (js_abs (vz sc))) (Fin 3)
            in Some (no_dims
              \<lparr>radius := Some (roundValue (clampDimension (js_mul (toNumber (radius baseDimensions)) uniformScale)))\<rparr>))
         else
           (let radialScale = js_div (js_add (js_abs (vx sc)) (js_abs (vz sc))) (Fin 2)
            in Some (no_dims
              \<lparr>radius := Some (roundValue (clampDimension (js_mul (toNumber (radius baseDimensions)) radialScale))),
               height := Some (roundValue (clampDimension (js_mul (toNumber (height baseDimensions)) (js_abs (vy sc)))))\<rparr>)))"


text \<open>The binary64 value of the literal \<^verbatim>\<open>0.1\<close>, a little above one tenth.\<close>

definition floor_value :: real where
  "floor_value = 3602879701896397 / 2 ^ 55"



section \<open>Inspector and dimension arrows\<close>

datatype dim_key = Width | Height | Depth | Radius

fun get_dim :: "dim_key \<Rightarrow> dims \<Rightarrow> jsnum option" where
  "get_dim Width d = width d"
| "get_dim Height d = height d"
| "get_dim Depth d = depth d"
| "get_dim Radius d = radius d"

fun set_dim :: "dim_key \<Rightarrow> jsnum \<Rightarrow> dims \<Rightarrow> dims" where
  "set_dim Width v d = d\<lparr>width := Some v\<rparr>"
| "set_dim Height v d = d\<lparr>height := Some v\<rparr>"
| "set_dim Depth v d = d\<lparr>depth := Some v\<rparr>"
| "set_dim Radius v d = d\<lparr>radius := Some v\<rparr>"

text \<open>
  \<^verbatim>\<open>
  const setValue = (mutator) => { onChange(id, (current) => mutator(current)); };
  const handleDimensionsChange = (dimensionKey, value) => {
    setValue((current) => ({
      ...current,
      dimensions: { ...current.dimensions, [dimensionKey]: value },
    }));
  };
  \<close>
  \<open>onChange\<close> is \<open>patchPrimitive\<close>; \<open>id\<close> is the id of the primitive the inspector shows.
\<close>

definition handleDimensionsChange :: "string \<Rightarrow> dim_key \<Rightarrow> jsnum \<Rightarrow> app \<Rightarrow> app" where
  "handleDimensionsChange i dimensionKey v s =
     patchPrimitive i
       (UpdaterFn (\<lambda>current. current\<lparr>dimensions := set_dim dimensionKey v (dimensions current)\<rparr>)) s"

text \<open>
  The value that the \<^verbatim>\<open>onChange\<close> handler of a dimension input passes on
  (\<open>None\<close>: the inspector shows no such input for a primitive of this type):
  \<^verbatim>\<open>
  {type === 'box' && ( ...
     onChange={(event) => handleDimensionsChange('width', parseNumber(event.target.value, dimensions.width))}
     ... the same for 'height' and 'depth' )}
  {type === 'sphere' && ( ...
     handleDimensionsChange('radius', Math.max(0.1, parseNumber(event.target.value, dimensions.radius))) )}
  {type === 'cylinder' && ( ...
     handleDimensionsChange('radius', Math.max(0.1, parseNumber(event.target.value, dimensions.radius)))
     handleDimensionsChange('height', Math.max(0.1, parseNumber(event.target.value, dimensions.height))) )}
  \<close>
\<close>

definition inspector_input_value :: "primitive \<Rightarrow> dim_key \<Rightarrow> jsnum \<Rightarrow> jsnum option" where
  "inspector_input_value primitive k parsed =
     (let d = dimensions primitive in
      if ptype primitive = Box \<and> (k = Width \<or> k = Height \<or> k = Depth)
        then Some (parseNumber parsed (get_dim k d))
      else if ptype primitive = Sphere \<and> k = Radius
        then Some (js_max (num 0.1) (parseNumber parsed (radius d)))
      else if ptype primitive = Cylinder \<and> (k = Radius \<or> k = Height)
        then Some (js_max (num 0.1) (parseNumber parsed (get_dim k d)))
      else None)"

definition inspector_edit_dimension :: "primitive \<Rightarrow> dim_key \<Rightarrow> jsnum \<Rightarrow> app \<Rightarrow> app" where
  "inspector_edit_dimension primitive k parsed s =
     (case inspector_input_value primitive k parsed of
        None \<Rightarrow> s
      | Some v \<Rightarrow> handleDimensionsChange (pid primitive) k v s)"

text \<open>
  \<^verbatim>\<open>
  onChange={(event) => {
    const nextType = event.target.value;
    setValue((current) => ({
      ...current, type: nextType, dimensions: { ...TYPE_PRESETS[nextType].dimensions } }));
  }}
  \<close>
\<close>

definition inspector_change_type :: "primitive \<Rightarrow> shape \<Rightarrow> app \<Rightarrow> app" where
  "inspector_change_type primitive nextType s =
     patchPrimitive (pid primitive)
       (UpdaterFn (\<lambda>current. current\<lparr>ptype := nextType, dimensions := preset_dimensions nextType\<rparr>)) s"

text \<open>
  \<^verbatim>\<open>const clampSize = (value, min = 0.1) => roundValue(Math.max(min, parseNumber(value, 0)));\<close>
\<close>

definition clampSize :: "jsnum \<Rightarrow> jsnum \<Rightarrow> jsnum" where
  "clampSize v mn = roundValue (js_max mn (parseNumber v (Some (Fin 0))))"

datatype arrow = BoxWidth | BoxDepth | BoxHeight | SphereDiameter | CylinderHeight | CylinderDiameter

text \<open>
  The \<^verbatim>\<open>value\<close> shown on an arrow of \<^verbatim>\<open>DimensionIndicators\<close>
  (\<^verbatim>\<open>roundValue(dimensions.width)\<close>, ..., \<^verbatim>\<open>roundValue(radius * 2)\<close>) and the object its
  \<^verbatim>\<open>onCommit\<close> passes to \<^verbatim>\<open>updateDimensions\<close>
  (\<^verbatim>\<open>{ width: clampSize(value) }\<close>, ..., \<^verbatim>\<open>{ radius: clampSize(value, 0.2) / 2 }\<close>);
  \<open>None\<close> when the arrow is not drawn for a primitive of this type.
\<close>

definition arrow_value :: "primitive \<Rightarrow> arrow \<Rightarrow> jsnum" where
  "arrow_value primitive a =
     (let d = dimensions primitive in
      case a of
        BoxWidth \<Rightarrow> roundValue (toNumber (width d))
      | BoxDepth \<Rightarrow> roundValue (toNumber (depth d))
      | BoxHeight \<Rightarrow> roundValue (toNumber (height d))
      | SphereDiameter \<Rightarrow> roundValue (js_mul (toNumber (radius d)) (Fin 2))
      | CylinderHeight \<Rightarrow> roundValue (toNumber (height d))
      | CylinderDiameter \<Rightarrow> roundValue (js_mul (toNumber (radius d)) (Fin 2)))"

definition arrow_next :: "primitive \<Rightarrow> arrow \<Rightarrow> jsnum \<Rightarrow> dims option" where
  "arrow_next primitive a v =
     (case a of
        BoxWidth \<Rightarrow> if ptype primitive = Box then Some (no_dims\<lparr>width := Some (clampSize v (num 0.1))\<rparr>) else None
      | BoxDepth \<Rightarrow> if ptype primitive = Box then Some (no_dims\<lparr>depth := Some (clampSize v (num 0.1))\<rparr>) else None
      | BoxHeight \<Rightarrow> if ptype primitive = Box then Some (no_dims\<lparr>height := Some (clampSize v (num 0.1))\<rparr>) else None
      | SphereDiameter \<Rightarrow>
          if ptype primitive = Sphere
          then Some (no_dims\<lparr>radius := Some (js_div (clampSize v (num 0.2)) (Fin 2))\<rparr>) else None
      | CylinderHeight \<Rightarrow>
          if ptype primitive = Cylinder then Some (no_dims\<lparr>height := Some (clampSize v (num 0.1))\<rparr>) else None
      | CylinderDiameter \<Rightarrow>
          if ptype primitive = Cylinder
          then Some (no_dims\<lparr>radius := Some (js_div (clampSize v (num 0.2)) (Fin 2))\<rparr>) else None)"

text \<open>
  \<^verbatim>\<open>
  const updateDimensions = (nextDimensions) => {
    onChange(primitive.id, { dimensions: { ...primitive.dimensions, ...nextDimensions } });
  };
  \<close>
  \<open>onChange\<close> is \<open>handleTransformPrimitive\<close>.
\<close>

definition updateDimensions :: "primitive \<Rightarrow> dims \<Rightarrow> app \<Rightarrow> app" where
  "updateDimensions primitive nextDimensions s =
     handleTransformPrimitive (pid primitive)
       \<lparr>payload_position = None,
        payload_dimensions = Some (spread_dims (dimensions primitive) nextDimensions)\<rparr> s"

text \<open>
  \<^verbatim>\<open>DimensionArrow\<close> commits with \<^verbatim>\<open>onCommit(parseNumber(draft, value))\<close>; \<open>parsed\<close> is
  \<^verbatim>\<open>Number.parseFloat(draft)\<close>.
\<close>

definition arrow_commit :: "primitive \<Rightarrow> arrow \<Rightarrow> jsnum \<Rightarrow> app \<Rightarrow> app" where
  "arrow_commit primitive a parsed s =
     (case arrow_next primitive a (parseNumber parsed (Some (arrow_value primitive a))) of
        None \<Rightarrow> s
      | Some nextDimensions \<Rightarrow> updateDimensions primitive nextDimensions s)"

text \<open>
  The invariant of the data model: every dimension field of a primitive's shape kind is
  present, finite and positive.
\<close>

definition positive_finite :: "jsnum option \<Rightarrow> bool" where
  "positive_finite v = (case v of Some (Fin a) \<Rightarrow> 0 < a | _ \<Rightarrow> False)"

definition dims_ok :: "primitive \<Rightarrow> bool" where
  "dims_ok p =
     (let d = dimensions p in
      case ptype p of
        Box \<Rightarrow> positive_finite (width d) \<and> positive_finite (height d) \<and> positive_finite (depth d)
      | Sphere \<Rightarrow> positive_finite (radius d)
      | Cylinder \<Rightarrow> positive_finite (radius d) \<and> positive_finite (height d))"

definition store_ok :: "app \<Rightarrow> bool" where
  "store_ok s = list_all dims_ok (primitives s)"

section \<open>Transform session\<close>

text \<open>
  Each \<^verbatim>\<open>EditablePrimitive\<close> owns two refs: \<^verbatim>\<open>meshRef\<close>, the proxy mesh that the
  \<^verbatim>\<open>TransformControls\<close> handle moves and scales, and \<^verbatim>\<open>sessionRef\<close>, which holds
  \<^verbatim>\<open>{ startDimensions }\<close> or \<^verbatim>\<open>null\<close>.
\<close>

record proxy =
  proxy_position :: vec3
  proxy_scale :: vec3

record editable =
  meshRef :: "proxy option"
  sessionRef :: "dims option"

datatype control_mode = Scale | Translate

text \<open>\<^verbatim>\<open>const mode = handleMode === HANDLE_MODES.resize ? 'scale' : 'translate';\<close>\<close>

definition mode_of :: "handle_mode \<Rightarrow> control_mode" where
  "mode_of hm = (if hm = Resize then Scale else Translate)"

text \<open>
  \<^verbatim>\<open>
  onMouseDown={() => {
    if (mode === 'scale') {
      sessionRef.current = { startDimensions: { ...primitive.dimensions } };
    }
  }}
  \<close>
\<close>

definition onMouseDown :: "control_mode \<Rightarrow> primitive \<Rightarrow> editable \<Rightarrow> editable" where
  "onMouseDown mode primitive c =
     (if mode = Scale then c\<lparr>sessionRef := Some (dimensions primitive)\<rparr> else c)"

text \<open>
  \<^verbatim>\<open>
  const finalizeResize = () => {
    if (mode !== 'scale' || !meshRef.current || !sessionRef.current) return;
    const nextDimensions = computeScaledDimensions(primitive.type,
      sessionRef.current.startDimensions, meshRef.current.scale);
    if (nextDimensions) {
      onTransform(primitive.id, { dimensions: nextDimensions });
    }
    meshRef.current.scale.set(1, 1, 1);
  };
  \<close>
  The model returns the calls of \<open>onTransform\<close> that the handler makes (their id and
  payload, in order) with the updated refs.
\<close>

definition finalizeResize ::
  "control_mode \<Rightarrow> primitive \<Rightarrow> editable \<Rightarrow> (string \<times> payload) list \<times> editable" where
  "finalizeResize mode primitive c =
     (if mode \<noteq> Scale then ([], c)
      else case meshRef c of
        None \<Rightarrow> ([], c)
      | Some m \<Rightarrow>
         (case sessionRef c of
            None \<Rightarrow> ([], c)
          | Some startDimensions \<Rightarrow>
             (let nextDimensions =
                    computeScaledDimensions (ptype primitive) startDimensions (Some (proxy_scale m));
                  calls = (case nextDimensions of
                             None \<Rightarrow> []
                           | Some d \<Rightarrow> [(pid primitive,
                                 \<lparr>payload_position = None, payload_dimensions = Some d\<rparr>)])
              in (calls, c\<lparr>meshRef := Some (m\<lparr>proxy_scale := Vec3 (Fin 1) (Fin 1) (Fin 1)\<rparr>)\<rparr>))))"

text \<open>
  \<^verbatim>\<open>
  const finalizeTranslate = () => {
    if (mode !== 'translate' || !meshRef.current) return;
    const { x, y, z } = meshRef.current.position;
    const userPosition = positionFromWorld({
      x: roundValue(x), y: roundValue(y), z: roundValue(z) });
    onTransform(primitive.id, { position: userPosition });
  };
  \<close>
\<close>

definition finalizeTranslate ::
  "control_mode \<Rightarrow> primitive \<Rightarrow> editable \<Rightarrow> (string \<times> payload) list" where
  "finalizeTranslate mode primitive c =
     (if mode \<noteq> Translate then []
      else case meshRef c of
        None \<Rightarrow> []
      | Some m \<Rightarrow>
         (let p = proxy_position m;
              userPosition =
                positionFromWorld (Vec3 (roundValue (vx p)) (roundValue (vy p)) (roundValue (vz p)))
          in [(pid primitive, \<lparr>payload_position = Some userPosition, payload_dimensions = None\<rparr>)]))"

text \<open>
  \<^verbatim>\<open>
  onMouseUp={() => {
    finalizeResize();
    finalizeTranslate();
    sessionRef.current = null;
  }}
  \<close>
  \<open>onTransform\<close> is \<open>handleTransformPrimitive\<close>.
\<close>

definition onMouseUp_calls :: "control_mode \<Rightarrow> primitive \<Rightarrow> editable \<Rightarrow> (string \<times> payload) list" where
  "onMouseUp_calls mode primitive c =
     (let (calls1, c1) = finalizeResize mode primitive c
      in calls1 @ finalizeTranslate mode primitive c1)"

definition apply_calls :: "(string \<times> payload) list \<Rightarrow> app \<Rightarrow> app" where
  "apply_calls calls s = foldl (\<lambda>st (i, pl). handleTransformPrimitive i pl st) s calls"

definition onMouseUp :: "control_mode \<Rightarrow> primitive \<Rightarrow> app \<times> editable \<Rightarrow> app \<times> editable" where
  "onMouseUp mode primitive sc =
     (let (s, c) = sc;
          (calls1, c1) = finalizeResize mode primitive c;
          calls2 = finalizeTranslate mode primitive c1
      in (apply_calls (calls1 @ calls2) s, c1\<lparr>sessionRef := None\<rparr>))"

text \<open>
  The editor: the state of \<^verbatim>\<open>App\<close> and the refs of every \<^verbatim>\<open>EditablePrimitive\<close>, keyed
  by primitive id. The handle is drawn for the selected primitive only
  (\<^verbatim>\<open>if (!isSelected) return baseMesh;\<close>), so its events reach that primitive's
  component and no other. A drag is the library's work: in translate mode it writes the
  proxy's position, in scale mode its scale.

  When the selection changes, the component of the primitive that was selected and the
  component of the one that becomes selected render a different root (the bare
  \<^verbatim>\<open>baseMesh\<close> against the fragment with \<^verbatim>\<open>TransformControls\<close>), so the proxy mesh is
  unmounted and a new one is mounted: at the primitive's engine-space position
  (\<^verbatim>\<open>sharedProps.position\<close> of \<^verbatim>\<open>PrimitiveGhost\<close>) and unscaled. \<^verbatim>\<open>sessionRef\<close> belongs
  to \<^verbatim>\<open>EditablePrimitive\<close> itself, which stays mounted, and keeps its value. How the
  renderer re-applies a stored position to the proxy after a commit is not modelled; no
  property below reads a proxy after a release.
\<close>

record editor =
  store :: app
  editables :: "string \<Rightarrow> editable"

datatype event =
  HandleDown
| HandleDrag vec3
| HandleUp
| SelectPrimitive "string option"
| SetHandleMode handle_mode

text \<open>\<^verbatim>\<open>primitives.find((primitive) => primitive.id === selectedId) ?? null\<close>\<close>

definition selectedPrimitive :: "app \<Rightarrow> primitive option" where
  "selectedPrimitive s = find (\<lambda>primitive. Some (pid primitive) = selectedId s) (primitives s)"

definition drag_proxy :: "control_mode \<Rightarrow> vec3 \<Rightarrow> editable \<Rightarrow> editable" where
  "drag_proxy mode v c =
     (case meshRef c of
        None \<Rightarrow> c
      | Some m \<Rightarrow>
          c\<lparr>meshRef := Some (if mode = Translate then m\<lparr>proxy_position := v\<rparr>
                              else m\<lparr>proxy_scale := v\<rparr>)\<rparr>)"

text \<open>A newly mounted proxy, and the remount of the proxy of the primitive with id \<open>i\<close>.\<close>

definition fresh_proxy :: "primitive \<Rightarrow> proxy" where
  "fresh_proxy p =
     \<lparr>proxy_position = positionToWorld (position p), proxy_scale = Vec3 (Fin 1) (Fin 1) (Fin 1)\<rparr>"

definition remount :: "primitive list \<Rightarrow> string \<Rightarrow> editable \<Rightarrow> editable" where
  "remount ps i c =
     (case find (\<lambda>p. pid p = i) ps of
        None \<Rightarrow> c
      | Some p \<Rightarrow> c\<lparr>meshRef := Some (fresh_proxy p)\<rparr>)"

fun step :: "event \<Rightarrow> editor \<Rightarrow> editor" where
  "step HandleDown e =
     (case selectedPrimitive (store e) of
        None \<Rightarrow> e
      | Some p \<Rightarrow>
          e\<lparr>editables := (editables e)
               (pid p := onMouseDown (mode_of (handleMode (store e))) p (editables e (pid p)))\<rparr>)"
| "step (HandleDrag v) e =
     (case selectedPrimitive (store e) of
        None \<Rightarrow> e
      | Some p \<Rightarrow>
          e\<lparr>editables := (editables e)
               (pid p := drag_proxy (mode_of (handleMode (store e))) v (editables e (pid p)))\<rparr>)"
| "step HandleUp e =
     (case selectedPrimitive (store e) of
        None \<Rightarrow> e
      | Some p \<Rightarrow>
          (let (s', c') = onMouseUp (mode_of (handleMode (store e))) p (store e, editables e (pid p))
           in e\<lparr>store := s', editables := (editables e)(pid p := c')\<rparr>))"
| "step (SelectPrimitive sel) e =
     (let old = selectedId (store e);
          s' = (store e)\<lparr>selectedId := sel\<rparr>
      in if sel = old then e\<lparr>store := s'\<rparr>
         else e\<lparr>store := s',
                editables := (\<lambda>i. if Some i = old \<or> Some i = sel
                                    then remount (primitives (store e)) i (editables e i)
                                    else editables e i)\<rparr>)"
| "step (SetHandleMode hm) e = e\<lparr>store := (store e)\<lparr>handleMode := hm\<rparr>\<rparr>"

definition run :: "event list \<Rightarrow> editor \<Rightarrow> editor" where
  "run evs e = foldl (\<lambda>st ev. step ev st) e evs"

text \<open>The proxies as first drawn: at the primitive's engine-space position, unscaled.\<close>

definition initial_editables :: "primitive list \<Rightarrow> string \<Rightarrow> editable" where
  "initial_editables ps i =
     (case find (\<lambda>p. pid p = i) ps of
        None \<Rightarrow> \<lparr>meshRef = None, sessionRef = None\<rparr>
      | Some p \<Rightarrow> \<lparr>meshRef = Some (fresh_proxy p), sessionRef = None\<rparr>)"

definition initial_editor :: editor where
  "initial_editor = \<lparr>store = initial_app, editables = initial_editables DEFAULT_PRIMITIVES\<rparr>"



section \<open>Example states\<close>

text \<open>A store of three primitives with the middle one selected.\<close>

definition xyz_store :: app where
  "xyz_store = initial_app\<lparr>selectedId := Some ''prim-2''\<rparr>"

text \<open>The first primitive of the initial store, which is the selected one.\<close>

definition base_plate :: primitive where
  "base_plate = DEFAULT_PRIMITIVES ! 0"


text \<open>
  A resize session that is started and dragged, and then discarded by selecting another
  primitive, with no release.
\<close>

definition resize_drag :: "event list" where
  "resize_drag = [SetHandleMode Resize, HandleDown, HandleDrag (Vec3 (Fin 2) (Fin 2) (Fin 2))]"

definition discarded_resize :: "event list" where
  "discarded_resize = resize_drag @ [SelectPrimitive (Some ''prim-2'')]"

text \<open>
  The initial store after \<^verbatim>\<open>randomId()\<close> has returned \<open>prim-1\<close>, the id of the first
  primitive, for a new box: the first and the last primitive share their id.
\<close>

definition duplicate_store :: app where
  "duplicate_store = addPrimitive Box ''prim-1'' ''42'' initial_app"

text \<open>An updater object that sets the operation to \<^verbatim>\<open>subtract\<close>.\<close>

definition make_subtractive :: updater where
  "make_subtractive =
     UpdaterObj \<lparr>new_id = None, new_name = None, new_type = None,
                 new_operation = Some Subtract, new_position = None, new_dimensions = None\<rparr>"

section \<open>Properties\<close>

subsection \<open>Solid builder\<close>

lemma merge_from_foldl:
  "i \<le> length ps \<Longrightarrow> merge_from lib ps i acc = foldl (combine lib) acc (drop i ps)"
proof (induction lib ps i acc rule: merge_from.induct)
  case (1 lib ps i merged)
  show ?case
  proof (cases "i < length ps")
    case True
    then have d: "drop i ps = ps ! i # drop (Suc i) ps"
      by (simp add: Cons_nth_drop_Suc)
    from True have le: "i + 1 \<le> length ps" by simp
    have st: "(if operation (ps ! i) = Subtract
               then csg_subtract lib merged (csg_fromMesh lib (primitiveToMesh (ps ! i)))
               else csg_union lib merged (csg_fromMesh lib (primitiveToMesh (ps ! i))))
              = combine lib merged (ps ! i)"
      by (cases "operation (ps ! i)") (simp_all add: combine_def)
    have "merge_from lib ps i merged = merge_from lib ps (i + 1) (combine lib merged (ps ! i))"
      using True by (subst merge_from.simps) (simp add: st Let_def)
    also have "\<dots> = foldl (combine lib) (combine lib merged (ps ! i)) (drop (i + 1) ps)"
      using "1.IH" [OF True refl refl refl le] by (simp add: st)
    finally show ?thesis by (simp add: d)
  next
    case False
    with "1.prems" show ?thesis
      by (subst merge_from.simps) simp
  qed
qed

lemma build_eq_spec: "buildCombinedMesh lib ps = spec_build lib ps"
proof (cases ps)
  case Nil
  then show ?thesis by (simp add: buildCombinedMesh_def)
next
  case (Cons p rest)
  then show ?thesis
    by (simp add: buildCombinedMesh_def merge_from_foldl)
qed

text \<open>
  C2. The builder returns no solid exactly when the list is empty. Otherwise its result is
  the fold of the specification (\<open>spec_build\<close>): the mesh of primitive 0 is the
  accumulator, and each later primitive, in list order, is united with the accumulator
  when its operation is \<open>Add\<close> and subtracted from it when its operation is \<open>Subtract\<close>.
  The operation tag of primitive 0 has no effect on the result.
\<close>

theorem solid_builder_fold:
  "(buildCombinedMesh lib ps = None) = (ps = [])
   \<and> buildCombinedMesh lib ps = spec_build lib ps
   \<and> buildCombinedMesh lib (p\<lparr>operation := tag\<rparr> # rest) = buildCombinedMesh lib (p # rest)"
proof -
  have a: "(buildCombinedMesh lib ps = None) = (ps = [])"
    by (simp add: buildCombinedMesh_def Let_def)
  have c: "buildCombinedMesh lib (p\<lparr>operation := tag\<rparr> # rest) = buildCombinedMesh lib (p # rest)"
    by (simp add: build_eq_spec primitiveToMesh_def Let_def)
  from a c show ?thesis by (simp add: build_eq_spec)
qed

subsection \<open>Coordinate remap\<close>

text \<open>
  C4. \<open>positionToWorld\<close> (user space to engine space) and \<open>positionFromWorld\<close> (engine
  space to user space) both send \<open>(x, y, z)\<close> to \<open>(x, z, y)\<close>, and each undoes the other
  on every position, whatever its components (special values included).
\<close>

theorem remap_involution:
  "positionToWorld (Vec3 a b c) = Vec3 a c b
   \<and> positionFromWorld (Vec3 a b c) = Vec3 a c b
   \<and> positionFromWorld (positionToWorld p) = p
   \<and> positionToWorld (positionFromWorld p) = p"
  by (simp add: positionToWorld_def positionFromWorld_def)

subsection \<open>Adding a primitive\<close>

text \<open>
  C9. The primitive that \<open>addPrimitive\<close> appends carries the operation \<open>Add\<close> when it is
  a box or a cylinder, and \<open>Subtract\<close> when it is a sphere.
\<close>

theorem new_primitive_operation:
  "operation (last (primitives (addPrimitive Box rid suffix s))) = Add
   \<and> operation (last (primitives (addPrimitive Cylinder rid suffix s))) = Add
   \<and> operation (last (primitives (addPrimitive Sphere rid suffix s))) = Subtract"
  by (simp add: addPrimitive_def newPrimitive_def Let_def)

subsection \<open>Removing a primitive\<close>

lemma filter_split_distinct:
  assumes "distinct (map f (xs @ p # ys))"
  shows "filter (\<lambda>q. f q \<noteq> f p) (xs @ p # ys) = xs @ ys"
proof -
  from assms have "f p \<notin> f ` set xs" "f p \<notin> f ` set ys"
    by auto
  then have "\<forall>q\<in>set xs. f q \<noteq> f p" and "\<forall>q\<in>set ys. f q \<noteq> f p"
    by (metis imageI)+
  then show ?thesis by simp
qed

lemma remove_primitives: "primitives (removePrimitive i s) = filter (\<lambda>p. pid p \<noteq> i) (primitives s)"
  by (simp add: removePrimitive_def Let_def)

lemma remove_selection:
  "selectedId (removePrimitive i s) =
     (let filtered = filter (\<lambda>p. pid p \<noteq> i) (primitives s) in
      if filtered = [] then None
      else if selectedId s = Some i \<or> \<not> (\<exists>p\<in>set filtered. Some (pid p) = selectedId s)
        then Some (pid (last filtered))
      else selectedId s)"
  by (auto simp: removePrimitive_def Let_def list_ex_iff last_conv_nth)

text \<open>
  C6. For an id \<open>i\<close> in the store, \<open>removePrimitive i\<close> keeps the primitives whose id
  is not \<open>i\<close>, in order; with unique ids (the invariant of the data model) that deletes
  exactly one primitive, the one with id \<open>i\<close>. If the removed primitive was the selected
  one and the list stays non-empty, the selection becomes the id of the last element of
  the new list; if the list becomes empty, the selection becomes none.
\<close>

theorem remove_selected:
  assumes present: "i \<in> set (map pid (primitives s))"
  shows "primitives (removePrimitive i s) = filter (\<lambda>p. pid p \<noteq> i) (primitives s)
     \<and> (distinct (map pid (primitives s)) \<longrightarrow>
          (\<exists>xs p ys. primitives s = xs @ p # ys \<and> pid p = i \<and> primitives (removePrimitive i s) = xs @ ys))
     \<and> (selectedId s = Some i \<and> primitives (removePrimitive i s) \<noteq> []
          \<longrightarrow> selectedId (removePrimitive i s) = Some (pid (last (primitives (removePrimitive i s)))))
     \<and> (primitives (removePrimitive i s) = [] \<longrightarrow> selectedId (removePrimitive i s) = None)"
proof -
  from present obtain p where "p \<in> set (primitives s)" "pid p = i" by auto
  then obtain xs ys where sp: "primitives s = xs @ p # ys"
    by (auto simp: in_set_conv_decomp)
  have b: "\<exists>xs p ys. primitives s = xs @ p # ys \<and> pid p = i \<and> primitives (removePrimitive i s) = xs @ ys"
    if uniq: "distinct (map pid (primitives s))"
  proof -
    from uniq sp have "filter (\<lambda>q. pid q \<noteq> pid p) (xs @ p # ys) = xs @ ys"
      using filter_split_distinct [of pid xs p ys] by simp
    with sp \<open>pid p = i\<close> show ?thesis
      by (auto simp: remove_primitives)
  qed
  have c: "selectedId s = Some i \<and> primitives (removePrimitive i s) \<noteq> []
          \<longrightarrow> selectedId (removePrimitive i s) = Some (pid (last (primitives (removePrimitive i s))))"
    by (simp add: remove_selection remove_primitives Let_def)
  have d: "primitives (removePrimitive i s) = [] \<longrightarrow> selectedId (removePrimitive i s) = None"
    by (simp add: remove_selection remove_primitives Let_def)
  from b c d show ?thesis by (simp add: remove_primitives)
qed

text \<open>Three primitives, the middle one selected and removed: the last one becomes selected.\<close>

theorem remove_selected_witness:
  "''prim-2'' \<in> set (map pid (primitives xyz_store))
   \<and> distinct (map pid (primitives xyz_store))
   \<and> map pid (primitives (removePrimitive ''prim-2'' xyz_store)) = [''prim-1'', ''prim-3'']
   \<and> selectedId (removePrimitive ''prim-2'' xyz_store) = Some ''prim-3''"
proof -
  have h1: "''prim-2'' \<in> set (map pid (primitives xyz_store))"
    by (simp add: xyz_store_def initial_app_def DEFAULT_PRIMITIVES_def)
  have h2: "distinct (map pid (primitives xyz_store))"
    by (simp add: xyz_store_def initial_app_def DEFAULT_PRIMITIVES_def)
  have sel: "selectedId xyz_store = Some ''prim-2''"
    by (simp add: xyz_store_def)
  have m: "map pid (filter (\<lambda>p. pid p \<noteq> ''prim-2'') (primitives xyz_store)) = [''prim-1'', ''prim-3'']"
    by (simp add: xyz_store_def initial_app_def DEFAULT_PRIMITIVES_def)
  note r = remove_selected [OF h1]
  from r have p: "primitives (removePrimitive ''prim-2'' xyz_store)
      = filter (\<lambda>p. pid p \<noteq> ''prim-2'') (primitives xyz_store)"
    by blast
  from p m have ids: "map pid (primitives (removePrimitive ''prim-2'' xyz_store)) = [''prim-1'', ''prim-3'']"
    by simp
  then have ne: "primitives (removePrimitive ''prim-2'' xyz_store) \<noteq> []"
    by auto
  with r sel have "selectedId (removePrimitive ''prim-2'' xyz_store)
      = Some (pid (last (primitives (removePrimitive ''prim-2'' xyz_store))))"
    by blast
  also have "pid (last (primitives (removePrimitive ''prim-2'' xyz_store)))
      = last (map pid (primitives (removePrimitive ''prim-2'' xyz_store)))"
    using ne by (simp add: last_map)
  also have "\<dots> = ''prim-3''"
    by (simp only: ids) simp
  finally show ?thesis using h1 h2 ids by simp
qed

text \<open>
  C10. Whenever the list stays non-empty, \<open>removePrimitive i\<close> selects the last element
  of the new list if the selection was none, was \<open>i\<close>, or was an id that is not in the
  new list; the selection is unchanged if it is the id of a primitive of the new list.
\<close>

theorem remove_reselects:
  assumes "primitives (removePrimitive i s) \<noteq> []"
  shows "((selectedId s = None \<or> selectedId s = Some i
           \<or> selectedId s \<notin> set (map (\<lambda>p. Some (pid p)) (primitives (removePrimitive i s))))
          \<longrightarrow> selectedId (removePrimitive i s) = Some (pid (last (primitives (removePrimitive i s)))))
       \<and> (selectedId s \<in> set (map (\<lambda>p. Some (pid p)) (primitives (removePrimitive i s)))
          \<longrightarrow> selectedId (removePrimitive i s) = selectedId s)"
  using assms
  by (auto simp: remove_selection remove_primitives Let_def image_iff)

text \<open>Nothing selected, the first of three primitives removed: the last one becomes selected.\<close>

theorem remove_reselects_witness:
  "primitives (removePrimitive ''prim-1'' (initial_app\<lparr>selectedId := None\<rparr>)) \<noteq> []
   \<and> selectedId (removePrimitive ''prim-1'' (initial_app\<lparr>selectedId := None\<rparr>)) = Some ''prim-3''"
proof -
  let ?s = "initial_app\<lparr>selectedId := None\<rparr>"
  have ids: "map pid (primitives (removePrimitive ''prim-1'' ?s)) = [''prim-2'', ''prim-3'']"
    by (simp add: remove_primitives initial_app_def DEFAULT_PRIMITIVES_def)
  then have ne: "primitives (removePrimitive ''prim-1'' ?s) \<noteq> []"
    by auto
  have sel: "selectedId ?s = None" by simp
  from remove_reselects [OF ne] sel
  have "selectedId (removePrimitive ''prim-1'' ?s)
      = Some (pid (last (primitives (removePrimitive ''prim-1'' ?s))))"
    by blast
  also have "pid (last (primitives (removePrimitive ''prim-1'' ?s)))
      = last (map pid (primitives (removePrimitive ''prim-1'' ?s)))"
    using ne by (simp add: last_map)
  also have "\<dots> = ''prim-3''"
    by (simp only: ids) simp
  finally show ?thesis using ne by simp
qed

subsection \<open>Mutators on a missing id, reordering\<close>

lemma findIndex_ge: "- 1 \<le> findIndex P xs"
  by (induction xs) (auto simp: Let_def)

lemma findIndex_absent: "(\<forall>x\<in>set xs. \<not> P x) \<Longrightarrow> findIndex P xs = - 1"
  by (induction xs) (auto simp: Let_def)

lemma findIndex_first:
  "k < length xs \<Longrightarrow> P (xs ! k) \<Longrightarrow> (\<forall>j<k. \<not> P (xs ! j)) \<Longrightarrow> findIndex P xs = int k"
proof (induction xs arbitrary: k)
  case Nil
  then show ?case by simp
next
  case (Cons x xs)
  show ?case
  proof (cases k)
    case 0
    with Cons.prems show ?thesis by simp
  next
    case (Suc m)
    with Cons.prems have nx: "\<not> P x" by auto
    from Suc Cons.prems have "m < length xs" "P (xs ! m)" "\<forall>j<m. \<not> P (xs ! j)"
      by auto
    then have "findIndex P xs = int m" by (rule Cons.IH)
    with nx Suc show ?thesis by (simp add: Let_def)
  qed
qed

lemma findIndex_distinct:
  assumes "distinct (map f xs)" "k < length xs"
  shows "findIndex (\<lambda>x. f x = f (xs ! k)) xs = int k"
proof (rule findIndex_first)
  show "k < length xs" by fact
  show "f (xs ! k) = f (xs ! k)" by simp
  show "\<forall>j<k. f (xs ! j) \<noteq> f (xs ! k)"
  proof (intro allI impI)
    fix j assume "j < k"
    with assms have jk: "j < length (map f xs)" "k < length (map f xs)" "j \<noteq> k" by auto
    from assms(1) jk(1,2) have "(map f xs ! j = map f xs ! k) = (j = k)"
      by (rule nth_eq_iff_index_eq)
    with jk show "f (xs ! j) \<noteq> f (xs ! k)" by simp
  qed
qed

lemma splice_forward:
  assumes "Suc k < length xs"
  shows "splice_in (splice_out xs k) (Suc k) (xs ! k) = xs[k := xs ! Suc k, Suc k := xs ! k]"
proof -
  from assms have "xs = take k xs @ xs ! k # xs ! Suc k # drop (Suc (Suc k)) xs"
    by (metis Cons_nth_drop_Suc Suc_lessD append_take_drop_id)
  then obtain as a b bs where xs: "xs = as @ a # b # bs" and l: "length as = k"
    and a: "xs ! k = a" and b: "xs ! Suc k = b"
    using assms by (metis Suc_lessD length_take less_imp_le_nat min.absorb2)
  show ?thesis
    unfolding a b unfolding xs using l
    by (simp add: splice_in_def splice_out_def list_update_append nth_append)
qed

lemma splice_backward:
  assumes "Suc k < length xs"
  shows "splice_in (splice_out xs (Suc k)) k (xs ! Suc k) = xs[k := xs ! Suc k, Suc k := xs ! k]"
proof -
  from assms have "xs = take k xs @ xs ! k # xs ! Suc k # drop (Suc (Suc k)) xs"
    by (metis Cons_nth_drop_Suc Suc_lessD append_take_drop_id)
  then obtain as a b bs where xs: "xs = as @ a # b # bs" and l: "length as = k"
    and a: "xs ! k = a" and b: "xs ! Suc k = b"
    using assms by (metis Suc_lessD length_take less_imp_le_nat min.absorb2)
  show ?thesis
    unfolding a b unfolding xs using l
    by (simp add: splice_in_def splice_out_def list_update_append nth_append)
qed

lemma patch_absent: "i \<notin> set (map pid (primitives s)) \<Longrightarrow> patchPrimitive i u s = s"
proof -
  assume a: "i \<notin> set (map pid (primitives s))"
  then have "map (patch_item i u) (primitives s) = primitives s"
    by (intro map_idI) (auto simp: patch_item_def)
  then show ?thesis by (simp add: patchPrimitive_def)
qed

lemma reorder_absent: "i \<notin> set (map pid ps) \<Longrightarrow> reorder_items i d ps = ps"
proof -
  assume "i \<notin> set (map pid ps)"
  then have "findIndex (\<lambda>p. pid p = i) ps = - 1"
    by (intro findIndex_absent) auto
  then show ?thesis by (simp add: reorder_items_def)
qed

lemma reorder_first: "reorder_items (pid (hd ps)) (- 1) ps = ps"
proof (cases ps)
  case Nil
  then show ?thesis by (simp add: reorder_items_def)
next
  case (Cons p rest)
  then show ?thesis by (simp add: reorder_items_def)
qed

lemma reorder_last:
  assumes "distinct (map pid ps)" "ps \<noteq> []"
  shows "reorder_items (pid (last ps)) 1 ps = ps"
proof -
  from assms(2) have k: "length ps - 1 < length ps" by simp
  from assms(2) have l: "last ps = ps ! (length ps - 1)" by (rule last_conv_nth)
  have "findIndex (\<lambda>p. pid p = pid (last ps)) ps = int (length ps - 1)"
    unfolding l using assms(1) k by (rule findIndex_distinct)
  moreover from assms(2) have "int (length ps - 1) + 1 = int (length ps)"
    by (cases ps) auto
  ultimately show ?thesis
    by (simp add: reorder_items_def Let_def)
qed

lemma reorder_later:
  assumes "distinct (map pid ps)" "Suc k < length ps"
  shows "reorder_items (pid (ps ! k)) 1 ps = ps[k := ps ! Suc k, Suc k := ps ! k]"
proof -
  from assms have "findIndex (\<lambda>p. pid p = pid (ps ! k)) ps = int k"
    by (intro findIndex_distinct) auto
  then show ?thesis using assms(2)
    by (simp add: reorder_items_def Let_def splice_forward nat_add_distrib)
qed

lemma reorder_earlier:
  assumes "distinct (map pid ps)" "Suc k < length ps"
  shows "reorder_items (pid (ps ! Suc k)) (- 1) ps = ps[k := ps ! Suc k, Suc k := ps ! k]"
proof -
  from assms have "findIndex (\<lambda>p. pid p = pid (ps ! Suc k)) ps = int (Suc k)"
    by (intro findIndex_distinct) auto
  moreover have "nat (1 + int k) = Suc k" by simp
  ultimately show ?thesis using assms(2)
    by (simp add: reorder_items_def Let_def splice_backward)
qed

lemma filter_absent: "i \<notin> set (map pid ps) \<Longrightarrow> filter (\<lambda>p. pid p \<noteq> i) ps = ps"
  by (induction ps) auto

lemma remove_absent_same:
  assumes "i \<notin> set (map pid (primitives s))"
      and "selectedId s \<in> set (map (\<lambda>p. Some (pid p)) (primitives s))
           \<or> (primitives s = [] \<and> selectedId s = None)"
  shows "removePrimitive i s = s"
proof -
  from assms(1) have f: "filter (\<lambda>p. pid p \<noteq> i) (primitives s) = primitives s"
    by (rule filter_absent)
  from assms have ni: "selectedId s \<noteq> Some i" by auto
  from assms(2) have "primitives s = [] \<and> selectedId s = None
      \<or> primitives s \<noteq> [] \<and> list_ex (\<lambda>item. Some (pid item) = selectedId s) (primitives s)"
    by (auto simp: list_ex_iff)
  then show ?thesis using ni
    by (auto simp: removePrimitive_def Let_def f)
qed

lemma nat_int_pred: "nat (int n - 1) = n - Suc 0"
  by arith

lemma remove_checked_total: "removePrimitive_checked i s = Some (removePrimitive i s)"
  by (simp add: removePrimitive_checked_def removePrimitive_def Let_def nth_opt_def nat_int_pred)

text \<open>
  C7, as stated, fails in two ways. With nothing selected, removing an id that is not in
  the store selects the last primitive, so the store (list and selection) is not left as
  it was. And the mutators address a primitive by its id, which \<^verbatim>\<open>randomId()\<close> does not
  keep unique: in a store whose first and last primitive share an id, reordering the
  last element by \<open>+1\<close> swaps the first two primitives, and reordering it by \<open>-1\<close> leaves
  the list as it is instead of swapping the last two.
\<close>

theorem missing_id_and_boundary_counterexample:
  "''prim-9'' \<notin> set (map pid (primitives (initial_app\<lparr>selectedId := None\<rparr>)))
   \<and> selectedId (removePrimitive ''prim-9'' (initial_app\<lparr>selectedId := None\<rparr>)) = Some ''prim-3''
   \<and> removePrimitive ''prim-9'' (initial_app\<lparr>selectedId := None\<rparr>) \<noteq> initial_app\<lparr>selectedId := None\<rparr>
   \<and> map pname (primitives duplicate_store)
       = [''Base Plate'', ''Center Column'', ''Corner Scoop'', ''Box 42'']
   \<and> pid (last (primitives duplicate_store)) = ''prim-1''
   \<and> map pname (primitives (reorderPrimitive ''prim-1'' 1 duplicate_store))
       = [''Center Column'', ''Base Plate'', ''Corner Scoop'', ''Box 42'']
   \<and> map pname (primitives (reorderPrimitive ''prim-1'' (- 1) duplicate_store))
       = [''Base Plate'', ''Center Column'', ''Corner Scoop'', ''Box 42'']"
proof -
  let ?s = "initial_app\<lparr>selectedId := None\<rparr>"
  have a: "''prim-9'' \<notin> set (map pid (primitives ?s))"
    by (simp add: initial_app_def DEFAULT_PRIMITIVES_def)
  have b: "selectedId (removePrimitive ''prim-9'' ?s) = Some ''prim-3''"
    by (simp add: removePrimitive_def initial_app_def DEFAULT_PRIMITIVES_def Let_def)
  have "selectedId ?s = None" by simp
  with b have c: "removePrimitive ''prim-9'' ?s \<noteq> ?s" by auto
  have d: "map pname (primitives duplicate_store)
       = [''Base Plate'', ''Center Column'', ''Corner Scoop'', ''Box 42'']"
    by (simp add: duplicate_store_def addPrimitive_def newPrimitive_def Let_def
        initial_app_def DEFAULT_PRIMITIVES_def)
  have e: "pid (last (primitives duplicate_store)) = ''prim-1''"
    by (simp add: duplicate_store_def addPrimitive_def newPrimitive_def Let_def)
  have f: "map pname (primitives (reorderPrimitive ''prim-1'' 1 duplicate_store))
       = [''Center Column'', ''Base Plate'', ''Corner Scoop'', ''Box 42'']"
    by (simp add: reorderPrimitive_def reorder_items_def splice_in_def splice_out_def
        duplicate_store_def addPrimitive_def newPrimitive_def Let_def
        initial_app_def DEFAULT_PRIMITIVES_def)
  have g: "map pname (primitives (reorderPrimitive ''prim-1'' (- 1) duplicate_store))
       = [''Base Plate'', ''Center Column'', ''Corner Scoop'', ''Box 42'']"
    by (simp add: reorderPrimitive_def reorder_items_def splice_in_def splice_out_def
        duplicate_store_def addPrimitive_def newPrimitive_def Let_def
        initial_app_def DEFAULT_PRIMITIVES_def)
  from a b c d e f g show ?thesis by blast
qed

text \<open>
  C7, amended. The mutators are total: the one read that could throw, in
  \<open>removePrimitive\<close>, is always inside the array. With an id that is not in the store,
  \<open>patchPrimitive\<close> and \<open>reorderPrimitive\<close> leave the store unchanged and
  \<open>removePrimitive\<close> leaves the list of primitives unchanged; \<open>removePrimitive\<close> leaves
  the selection unchanged too when the selection is the id of a primitive in the list,
  or when the list is empty and nothing is selected. Reordering the first primitive by
  \<open>-1\<close> changes nothing. In a store whose ids are unique, reordering the last primitive
  by \<open>+1\<close> changes nothing, and reordering the primitive at position \<open>k\<close> by \<open>+1\<close>, or the
  one at position \<open>k + 1\<close> by \<open>-1\<close>, swaps the two.
\<close>

theorem missing_id_and_reorder:
  "removePrimitive_checked i s = Some (removePrimitive i s)
   \<and> (i \<notin> set (map pid (primitives s)) \<longrightarrow>
      patchPrimitive i u s = s
      \<and> reorderPrimitive i d s = s
      \<and> primitives (removePrimitive i s) = primitives s
      \<and> (selectedId s \<in> set (map (\<lambda>p. Some (pid p)) (primitives s))
           \<or> (primitives s = [] \<and> selectedId s = None) \<longrightarrow> removePrimitive i s = s))
   \<and> (primitives s \<noteq> [] \<longrightarrow> reorderPrimitive (pid (hd (primitives s))) (- 1) s = s)
   \<and> (distinct (map pid (primitives s)) \<longrightarrow>
        (primitives s \<noteq> [] \<longrightarrow> reorderPrimitive (pid (last (primitives s))) 1 s = s)
        \<and> (Suc k < length (primitives s) \<longrightarrow>
             primitives (reorderPrimitive (pid (primitives s ! k)) 1 s)
               = (primitives s)[k := primitives s ! Suc k, Suc k := primitives s ! k]
             \<and> primitives (reorderPrimitive (pid (primitives s ! Suc k)) (- 1) s)
               = (primitives s)[k := primitives s ! Suc k, Suc k := primitives s ! k]))"
proof -
  have a: "i \<notin> set (map pid (primitives s)) \<longrightarrow>
      patchPrimitive i u s = s
      \<and> reorderPrimitive i d s = s
      \<and> primitives (removePrimitive i s) = primitives s
      \<and> (selectedId s \<in> set (map (\<lambda>p. Some (pid p)) (primitives s))
           \<or> (primitives s = [] \<and> selectedId s = None) \<longrightarrow> removePrimitive i s = s)"
    using patch_absent [of i s u] reorder_absent [of i "primitives s" d]
      filter_absent [of i "primitives s"] remove_absent_same [of i s]
    by (simp add: reorderPrimitive_def remove_primitives)
  have b: "primitives s \<noteq> [] \<longrightarrow> reorderPrimitive (pid (hd (primitives s))) (- 1) s = s"
    by (simp add: reorderPrimitive_def reorder_first)
  have c: "distinct (map pid (primitives s)) \<longrightarrow> primitives s \<noteq> [] \<longrightarrow>
        reorderPrimitive (pid (last (primitives s))) 1 s = s"
    by (simp add: reorderPrimitive_def reorder_last)
  have d: "distinct (map pid (primitives s)) \<longrightarrow> Suc k < length (primitives s) \<longrightarrow>
        primitives (reorderPrimitive (pid (primitives s ! k)) 1 s)
          = (primitives s)[k := primitives s ! Suc k, Suc k := primitives s ! k]
        \<and> primitives (reorderPrimitive (pid (primitives s ! Suc k)) (- 1) s)
          = (primitives s)[k := primitives s ! Suc k, Suc k := primitives s ! k]"
    by (simp add: reorderPrimitive_def reorder_later reorder_earlier)
  from a b c d remove_checked_total [of i s] show ?thesis by blast
qed

text \<open>The initial store: the missing id \<open>prim-9\<close>, the two boundaries, and the swap of the first two.\<close>

theorem missing_id_and_reorder_witness:
  "''prim-9'' \<notin> set (map pid (primitives initial_app))
   \<and> selectedId initial_app \<in> set (map (\<lambda>p. Some (pid p)) (primitives initial_app))
   \<and> primitives initial_app \<noteq> []
   \<and> distinct (map pid (primitives initial_app))
   \<and> Suc 0 < length (primitives initial_app)
   \<and> removePrimitive_checked ''prim-9'' initial_app = Some initial_app
   \<and> patchPrimitive ''prim-9'' make_subtractive initial_app = initial_app
   \<and> reorderPrimitive ''prim-9'' 1 initial_app = initial_app
   \<and> removePrimitive ''prim-9'' initial_app = initial_app
   \<and> reorderPrimitive ''prim-1'' (- 1) initial_app = initial_app
   \<and> reorderPrimitive ''prim-3'' 1 initial_app = initial_app
   \<and> map pid (primitives (reorderPrimitive ''prim-1'' 1 initial_app)) = [''prim-2'', ''prim-1'', ''prim-3'']
   \<and> map pid (primitives (reorderPrimitive ''prim-2'' (- 1) initial_app)) = [''prim-2'', ''prim-1'', ''prim-3'']"
proof -
  have h1: "''prim-9'' \<notin> set (map pid (primitives initial_app))"
    by (simp add: initial_app_def DEFAULT_PRIMITIVES_def)
  have h2: "selectedId initial_app \<in> set (map (\<lambda>p. Some (pid p)) (primitives initial_app))"
    by (simp add: initial_app_def DEFAULT_PRIMITIVES_def)
  have h3: "primitives initial_app \<noteq> []"
    by (simp add: initial_app_def DEFAULT_PRIMITIVES_def)
  have h4: "distinct (map pid (primitives initial_app))"
    by (simp add: initial_app_def DEFAULT_PRIMITIVES_def)
  have h5: "Suc 0 < length (primitives initial_app)"
    by (simp add: initial_app_def DEFAULT_PRIMITIVES_def)
  have e1: "pid (hd (primitives initial_app)) = ''prim-1''"
    and e2: "pid (last (primitives initial_app)) = ''prim-3''"
    and e3: "pid (primitives initial_app ! 0) = ''prim-1''"
    and e4: "pid (primitives initial_app ! Suc 0) = ''prim-2''"
    and e5: "map pid ((primitives initial_app)[0 := primitives initial_app ! Suc 0, Suc 0 := primitives initial_app ! 0])
             = [''prim-2'', ''prim-1'', ''prim-3'']"
    by (simp_all add: initial_app_def DEFAULT_PRIMITIVES_def)
  note t = missing_id_and_reorder [of "''prim-9''" initial_app make_subtractive 1 0]
  from t h1 h2 have p1: "patchPrimitive ''prim-9'' make_subtractive initial_app = initial_app"
    and p2: "reorderPrimitive ''prim-9'' 1 initial_app = initial_app"
    and p3: "removePrimitive ''prim-9'' initial_app = initial_app"
    by blast+
  from t h3 e1 have p4: "reorderPrimitive ''prim-1'' (- 1) initial_app = initial_app"
    by metis
  from t p3 have p0: "removePrimitive_checked ''prim-9'' initial_app = Some initial_app"
    by simp
  from t h3 h4 e2 have p5: "reorderPrimitive ''prim-3'' 1 initial_app = initial_app"
    by metis
  from t h4 h5 have "primitives (reorderPrimitive (pid (primitives initial_app ! 0)) 1 initial_app)
          = (primitives initial_app)[0 := primitives initial_app ! Suc 0, Suc 0 := primitives initial_app ! 0]"
     and "primitives (reorderPrimitive (pid (primitives initial_app ! Suc 0)) (- 1) initial_app)
          = (primitives initial_app)[0 := primitives initial_app ! Suc 0, Suc 0 := primitives initial_app ! 0]"
    by blast+
  with e3 e4 e5 have p6: "map pid (primitives (reorderPrimitive ''prim-1'' 1 initial_app)) = [''prim-2'', ''prim-1'', ''prim-3'']"
    and p7: "map pid (primitives (reorderPrimitive ''prim-2'' (- 1) initial_app)) = [''prim-2'', ''prim-1'', ''prim-3'']"
    by simp_all
  from h1 h2 h3 h4 h5 p0 p1 p2 p3 p4 p5 p6 p7 show ?thesis by blast
qed

subsection \<open>Binary64 rounding\<close>





lemma rne_cases: "rne n = \<lfloor>n\<rfloor> \<or> rne n = \<lfloor>n\<rfloor> + 1"
  by (simp add: rne_def Let_def)


lemma rne_ge_int: "of_int k \<le> n \<Longrightarrow> k \<le> rne n"
proof -
  assume "of_int k \<le> n"
  then have "k \<le> \<lfloor>n\<rfloor>" by (simp add: le_floor_iff)
  with rne_cases [of n] show ?thesis by auto
qed


lemma rne_of_int: "rne (of_int k) = k"
  by (simp add: rne_def)


lemma pow_pos: "0 < (2::real) powi k"
  by simp



lemma rnd_nonneg: "0 < a \<Longrightarrow> 0 \<le> rnd a"
proof -
  assume "0 < a"
  then have "0 \<le> a / 2 powi (exponent a - 52)" by simp
  then have "0 \<le> rne (a / 2 powi (exponent a - 52))"
    using rne_ge_int [of 0] by simp
  then show ?thesis by (simp add: rnd_def)
qed






subsection \<open>Dimension-from-scale resolver\<close>

text \<open>Evaluating \<open>fl\<close> on a given real.\<close>

lemmas fl_eval = num_def fl_def fl_pos_def rnd_def exponent_def rne_def Let_def

lemma num_floor: "num 0.1 = Fin floor_value"
  by (simp add: fl_eval floor_value_def)




text \<open>
  The literal \<^verbatim>\<open>1.005\<close> is a little below \<open>1.005\<close> and its product with 100 a little
  below \<open>100.5\<close>, so \<^verbatim>\<open>roundValue(1.005)\<close> is \<open>1\<close>; and \<^verbatim>\<open>0.1 * 3\<close> is not \<^verbatim>\<open>0.3\<close>.
\<close>

lemma roundValue_1005: "roundValue (num 1.005) = Fin 1"
  by (simp add: roundValue_def roundValue_prec_def fl_eval)

lemma three_tenths: "js_mul (num 0.1) (Fin 3) \<noteq> num 0.3"
  by (simp add: fl_eval)





















subsection \<open>Transform session\<close>



lemma finalizeResize_Translate: "finalizeResize Translate p c = ([], c)"
  by (simp add: finalizeResize_def)

lemma finalizeTranslate_Scale: "finalizeTranslate Scale p c = []"
  by (simp add: finalizeTranslate_def)


lemma initial_selected: "selectedPrimitive initial_app = Some base_plate"
  by (simp add: selectedPrimitive_def initial_app_def DEFAULT_PRIMITIVES_def base_plate_def)

lemma base_plate_id: "pid base_plate = ''prim-1''"
  by (simp add: base_plate_def DEFAULT_PRIMITIVES_def)

lemma initial_proxy:
  "initial_editables DEFAULT_PRIMITIVES ''prim-1'' =
     \<lparr>meshRef = Some \<lparr>proxy_position = Vec3 (Fin 0) (Fin 0.5) (Fin 0),
                      proxy_scale = Vec3 (Fin 1) (Fin 1) (Fin 1)\<rparr>,
      sessionRef = None\<rparr>"
  by (simp add: initial_editables_def fresh_proxy_def DEFAULT_PRIMITIVES_def positionToWorld_def)

lemma remount_base_plate:
  "remount DEFAULT_PRIMITIVES ''prim-1'' c =
     c\<lparr>meshRef := Some \<lparr>proxy_position = Vec3 (Fin 0) (Fin 0.5) (Fin 0),
                         proxy_scale = Vec3 (Fin 1) (Fin 1) (Fin 1)\<rparr>\<rparr>"
  by (simp add: remount_def fresh_proxy_def DEFAULT_PRIMITIVES_def positionToWorld_def)




lemma step_keeps_primitives:
  "ev \<noteq> HandleUp \<Longrightarrow> primitives (store (step ev e)) = primitives (store e)"
  by (cases ev) (simp_all add: Let_def split: option.splits)

lemma run_keeps_primitives:
  "HandleUp \<notin> set evs \<Longrightarrow> primitives (store (run evs e)) = primitives (store e)"
proof (induction evs arbitrary: e)
  case Nil
  then show ?case by (simp add: run_def)
next
  case (Cons ev evs)
  then have "primitives (store (run evs (step ev e))) = primitives (store (step ev e))"
    by simp
  moreover from Cons.prems have "primitives (store (step ev e)) = primitives (store e)"
    by (intro step_keeps_primitives) auto
  ultimately show ?case by (simp add: run_def)
qed

lemma onMouseUp_calls_le: "length (onMouseUp_calls mode p c) \<le> 1"
proof (cases mode)
  case Scale
  then show ?thesis
    by (simp add: onMouseUp_calls_def finalizeTranslate_Scale finalizeResize_def Let_def
        split: option.splits prod.splits)
next
  case Translate
  then show ?thesis
    by (simp add: onMouseUp_calls_def finalizeResize_Translate finalizeTranslate_def Let_def
        split: option.splits)
qed

lemma step_HandleUp_store:
  "store (step HandleUp e) =
     (case selectedPrimitive (store e) of
        None \<Rightarrow> store e
      | Some p \<Rightarrow> apply_calls (onMouseUp_calls (mode_of (handleMode (store e))) p (editables e (pid p)))
                    (store e))"
  by (simp add: onMouseUp_def onMouseUp_calls_def Let_def split: option.splits prod.splits)

text \<open>
  C8. No event of a transform session other than the release changes the primitives of
  the store: after any sequence of handle-down, drag, selection and mode events without
  a release, every primitive (its dimensions and its position) is as before. The release
  updates the store through the calls of \<open>onTransform\<close> that \<open>onMouseUp\<close> makes, and it
  makes at most one.
\<close>

theorem commit_gating:
  "(HandleUp \<notin> set evs \<longrightarrow> primitives (store (run evs e)) = primitives (store e))
   \<and> store (step HandleUp e) =
       (case selectedPrimitive (store e) of
          None \<Rightarrow> store e
        | Some p \<Rightarrow> apply_calls (onMouseUp_calls (mode_of (handleMode (store e))) p (editables e (pid p)))
                      (store e))
   \<and> length (onMouseUp_calls mode q c) \<le> 1"
  using run_keeps_primitives [of evs e] step_HandleUp_store [of e] onMouseUp_calls_le [of mode q c]
  by blast

lemma resize_selected: "selectedPrimitive (initial_app\<lparr>handleMode := Resize\<rparr>) = Some base_plate"
  by (simp add: selectedPrimitive_def initial_app_def DEFAULT_PRIMITIVES_def base_plate_def)

lemma resize_drag_editor:
  "run resize_drag initial_editor =
     \<lparr>store = initial_app\<lparr>handleMode := Resize\<rparr>,
      editables = (initial_editables DEFAULT_PRIMITIVES)
        (''prim-1'' :=
           \<lparr>meshRef = Some \<lparr>proxy_position = Vec3 (Fin 0) (Fin 0.5) (Fin 0),
                            proxy_scale = Vec3 (Fin 2) (Fin 2) (Fin 2)\<rparr>,
            sessionRef = Some (dimensions base_plate)\<rparr>)\<rparr>"
  by (simp add: resize_drag_def run_def initial_editor_def resize_selected base_plate_id
      initial_proxy mode_of_def onMouseDown_def drag_proxy_def)

text \<open>
  A resize session on the base plate is started (the snapshot is taken) and the proxy is
  scaled by 2; then another primitive is selected, which remounts the proxy unscaled.
  The primitives are the initial ones.
\<close>

theorem commit_gating_witness:
  "HandleUp \<notin> set discarded_resize
   \<and> sessionRef (editables (run resize_drag initial_editor) ''prim-1'')
       = Some (dimensions base_plate)
   \<and> meshRef (editables (run resize_drag initial_editor) ''prim-1'')
       = Some \<lparr>proxy_position = Vec3 (Fin 0) (Fin 0.5) (Fin 0),
               proxy_scale = Vec3 (Fin 2) (Fin 2) (Fin 2)\<rparr>
   \<and> meshRef (editables (run discarded_resize initial_editor) ''prim-1'')
       = Some \<lparr>proxy_position = Vec3 (Fin 0) (Fin 0.5) (Fin 0),
               proxy_scale = Vec3 (Fin 1) (Fin 1) (Fin 1)\<rparr>
   \<and> selectedId (store (run discarded_resize initial_editor)) = Some ''prim-2''
   \<and> primitives (store (run discarded_resize initial_editor)) = DEFAULT_PRIMITIVES"
proof -
  have h: "HandleUp \<notin> set discarded_resize"
    by (simp add: discarded_resize_def resize_drag_def)
  have a: "sessionRef (editables (run resize_drag initial_editor) ''prim-1'')
       = Some (dimensions base_plate)"
    by (simp add: resize_drag_editor)
  have b: "meshRef (editables (run resize_drag initial_editor) ''prim-1'')
       = Some \<lparr>proxy_position = Vec3 (Fin 0) (Fin 0.5) (Fin 0),
               proxy_scale = Vec3 (Fin 2) (Fin 2) (Fin 2)\<rparr>"
    by (simp add: resize_drag_editor)
  have sel: "selectedId initial_app = Some ''prim-1''" "primitives initial_app = DEFAULT_PRIMITIVES"
    by (simp_all add: initial_app_def DEFAULT_PRIMITIVES_def)
  have r: "run discarded_resize initial_editor
       = step (SelectPrimitive (Some ''prim-2'')) (run resize_drag initial_editor)"
    by (simp add: discarded_resize_def run_def)
  have c: "meshRef (editables (run discarded_resize initial_editor) ''prim-1'')
       = Some \<lparr>proxy_position = Vec3 (Fin 0) (Fin 0.5) (Fin 0),
               proxy_scale = Vec3 (Fin 1) (Fin 1) (Fin 1)\<rparr>"
    by (simp add: r resize_drag_editor sel Let_def remount_base_plate)
  have d: "selectedId (store (run discarded_resize initial_editor)) = Some ''prim-2''"
    by (simp add: r resize_drag_editor sel Let_def)
  from commit_gating [of discarded_resize initial_editor] h
  have "primitives (store (run discarded_resize initial_editor)) = primitives (store initial_editor)"
    by blast
  then have e: "primitives (store (run discarded_resize initial_editor)) = DEFAULT_PRIMITIVES"
    by (simp add: initial_editor_def initial_app_def)
  from h a b c d e show ?thesis by blast
qed

text \<open>
  Selecting the base plate again and releasing the handle does not commit the discarded
  drag either: the proxy was remounted unscaled, so the snapshot is written back as it is.
\<close>

lemma discarded_drag_not_committed:
  "primitives (store (run (discarded_resize @ [SelectPrimitive (Some ''prim-1''), HandleUp]) initial_editor))
     = DEFAULT_PRIMITIVES"
proof -
  have sel: "selectedId initial_app = Some ''prim-1''" "primitives initial_app = DEFAULT_PRIMITIVES"
    by (simp_all add: initial_app_def DEFAULT_PRIMITIVES_def)
  have r: "run (discarded_resize @ [SelectPrimitive (Some ''prim-1''), HandleUp]) initial_editor
       = step HandleUp (step (SelectPrimitive (Some ''prim-1''))
           (step (SelectPrimitive (Some ''prim-2'')) (run resize_drag initial_editor)))"
    by (simp add: discarded_resize_def run_def)
  have six: "roundValue (clampDimension (fl 6)) = Fin 6" "roundValue (clampDimension (fl 1)) = Fin 1"
    by (simp_all add: clampDimension_def clampDimension_fb_def
        roundValue_def roundValue_prec_def fl_eval)
  have dims: "computeScaledDimensions Box (dimensions base_plate) (Some (Vec3 (Fin 1) (Fin 1) (Fin 1)))
       = Some (dimensions base_plate)"
    by (simp add: computeScaledDimensions_def base_plate_def DEFAULT_PRIMITIVES_def toNumber_def
        no_dims_def six)
  have bp: "ptype base_plate = Box" "pid base_plate = ''prim-1''"
    by (simp_all add: base_plate_def DEFAULT_PRIMITIVES_def)
  have patch: "map (patch_item ''prim-1'' (UpdaterFn (apply_payload
        \<lparr>payload_position = None, payload_dimensions = Some (dimensions base_plate)\<rparr>)))
        DEFAULT_PRIMITIVES = DEFAULT_PRIMITIVES"
    by (simp add: patch_item_def apply_payload_def base_plate_def DEFAULT_PRIMITIVES_def)
  have sel2: "selectedPrimitive (initial_app\<lparr>handleMode := Resize, selectedId := Some ''prim-1''\<rparr>)
       = Some base_plate"
    by (simp add: selectedPrimitive_def initial_app_def DEFAULT_PRIMITIVES_def base_plate_def)
  show ?thesis
    by (simp add: r resize_drag_editor sel sel2 Let_def remount_base_plate resize_selected
        onMouseUp_def mode_of_def finalizeResize_def finalizeTranslate_def dims bp
        apply_calls_def handleTransformPrimitive_def patchPrimitive_def patch)
qed

subsection \<open>The dimension invariant\<close>

text \<open>
  The initial store satisfies the invariant; the inspector's sphere and cylinder inputs
  store a finite value not below the floor, and a type change stores the presets.
\<close>

lemma parseNumber_finite:
  "positive_finite fb \<or> fb = Some (Fin b) \<Longrightarrow> \<exists>a. parseNumber parsed fb = Fin a"
  by (cases parsed)
     (auto simp: parseNumber_def positive_finite_def split: option.splits jsnum.splits)

lemma inspector_sphere_cylinder_clamped:
  assumes "dims_ok p" "ptype p \<noteq> Box" "inspector_input_value p k parsed = Some v"
  shows "\<exists>a. v = Fin a \<and> floor_value \<le> a"
proof -
  from assms obtain fb where v: "v = js_max (num 0.1) (parseNumber parsed fb)"
    and fb: "positive_finite fb"
    by (cases "ptype p"; cases k)
       (auto simp: inspector_input_value_def dims_ok_def Let_def split: if_splits)
  from fb obtain a where "parseNumber parsed fb = Fin a"
    using parseNumber_finite by blast
  with v have "v = Fin (max floor_value a)" by (simp add: num_floor)
  then show ?thesis by simp
qed

lemma type_change_ok: "dims_ok (current\<lparr>ptype := t, dimensions := preset_dimensions t\<rparr>)"
  by (cases t) (simp_all add: dims_ok_def positive_finite_def no_dims_def fl_eval)

lemma initial_store_ok: "store_ok initial_app"
  by (simp add: store_ok_def initial_app_def DEFAULT_PRIMITIVES_def dims_ok_def
      positive_finite_def no_dims_def fl_eval)

text \<open>
  C1. Every dimension field stays finite and positive after every mutating operation.
  The inspector's box inputs break this: they store the parsed number as it is, where
  the sphere and cylinder inputs of the same form pass it through \<^verbatim>\<open>Math.max(0.1, ...)\<close>.
  Here the selected box of the initial store, whose dimensions are all positive, gets
  the width \<open>-5\<close> typed into the inspector: \<open>-5\<close> is stored, not \<open>0.1\<close>.
\<close>

theorem inspector_box_width_unclamped:
  "store_ok initial_app
   \<and> selectedPrimitive initial_app = Some base_plate
   \<and> ptype base_plate = Box
   \<and> width (dimensions (primitives (inspector_edit_dimension base_plate Width (Fin (- 5)) initial_app) ! 0))
       = Some (Fin (- 5))
   \<and> \<not> store_ok (inspector_edit_dimension base_plate Width (Fin (- 5)) initial_app)"
proof -
  have t: "ptype base_plate = Box"
    by (simp add: base_plate_def DEFAULT_PRIMITIVES_def)
  have v: "inspector_input_value base_plate Width (Fin (- 5)) = Some (Fin (- 5))"
    by (simp add: inspector_input_value_def t parseNumber_def)
  have w: "width (dimensions (primitives (inspector_edit_dimension base_plate Width (Fin (- 5)) initial_app) ! 0))
       = Some (Fin (- 5))"
    by (simp add: inspector_edit_dimension_def v handleDimensionsChange_def patchPrimitive_def
        patch_item_def base_plate_id initial_app_def DEFAULT_PRIMITIVES_def)
  have n: "\<not> store_ok (inspector_edit_dimension base_plate Width (Fin (- 5)) initial_app)"
    by (simp add: inspector_edit_dimension_def v handleDimensionsChange_def patchPrimitive_def
        patch_item_def base_plate_id initial_app_def DEFAULT_PRIMITIVES_def store_ok_def
        dims_ok_def positive_finite_def no_dims_def)
  from initial_store_ok initial_selected t w n show ?thesis by blast
qed

end
